theory Spec2Isabelle
  imports Complex_Main
begin

section \<open>Conventions and numbers\<close>

text \<open>
  This theory models the slot-machine client: the configuration provider and its accessor
  hooks, the bet controls, and the spin orchestrator (\<open>SlotMachine\<close>) with the
  bonus-wheel state that \<open>Home\<close> owns.

  Conventions. Counts and indices are integers. A field that a JSON document may lack
  is an \<open>option\<close>: \<open>None\<close> is \<open>undefined\<close>. State updates take effect at
  once, and a callback sees the state of the render in which it was created; that render
  is taken to be the current one when an input handler runs. Sounds are not modelled.

  Amounts are JavaScript numbers, that is IEEE 754 doubles. A finite double is modelled
  by the real number it denotes, so comparing two amounts is comparing reals. Arithmetic
  on amounts rounds: the difference and the quotient of two doubles are the exact
  difference and quotient rounded to the nearest double, ties to the even significand. A
  decimal literal of the source such as \<open>0.05\<close> is the double nearest to it. A result
  too large for a double is kept as \<open>2 ^ 1024\<close> with its sign, which compares with
  every finite double as the infinity of JavaScript does; \<open>NaN\<close> is not modelled.
\<close>

text \<open>The position of the leading binary digit of a positive integer.\<close>

function ilog2 :: "int \<Rightarrow> int" where
  "ilog2 n = (if n < 2 then 0 else 1 + ilog2 (n div 2))"
  by pat_completeness auto
termination by (relation "measure nat") auto

text \<open>How often a positive number below one must be doubled to reach one, counted up
  to \<open>fuel\<close>.\<close>

function doublings :: "int \<Rightarrow> real \<Rightarrow> int" where
  "doublings fuel a =
     (if fuel \<le> 0 \<or> 1 \<le> a then 0 else 1 + doublings (fuel - 1) (2 * a))"
  by pat_completeness auto
termination by (relation "measure (\<lambda>(fuel, a). nat fuel)") auto

declare ilog2.simps [simp del] doublings.simps [simp del]

text \<open>The binary exponent \<open>e\<close> of a positive number \<open>a\<close>, with
  \<open>2 ^ e \<le> a < 2 ^ (e + 1)\<close>, and \<open>-1022\<close> for the subnormal range.\<close>

definition binaryExponent :: "real \<Rightarrow> int" where
  "binaryExponent a = (if 1 \<le> a then ilog2 \<lfloor>a\<rfloor> else - doublings 1022 a)"

text \<open>\<open>x\<close> times \<open>2\<close> to the power \<open>k\<close>.\<close>

definition scale2 :: "real \<Rightarrow> int \<Rightarrow> real" where
  "scale2 x k = (if 0 \<le> k then x * of_int (2 ^ nat k) else x / of_int (2 ^ nat (- k)))"

definition roundHalfEven :: "real \<Rightarrow> int" where
  "roundHalfEven m =
     (let f = \<lfloor>m\<rfloor>; d = m - of_int f
      in if d < 1 / 2 then f else if 1 / 2 < d then f + 1 else if even f then f else f + 1)"

text \<open>The double nearest to a real: a significand of 53 binary digits, the spacing of
  the doubles around \<open>x\<close> being \<open>2\<close> to the power \<open>binaryExponent \<bar>x\<bar> - 52\<close>.\<close>

definition nearestDouble :: "real \<Rightarrow> real" where
  "nearestDouble x =
     (if x = 0 then 0
      else (let a = \<bar>x\<bar>;
                k = binaryExponent a - 52;
                v = min (scale2 (of_int (roundHalfEven (scale2 a (- k)))) k) (scale2 1 1024)
            in if x < 0 then - v else v))"

text \<open>The operators \<open>-\<close> and \<open>/\<close> on amounts (the divisor is never zero where
  the model divides).\<close>

definition js_minus :: "real \<Rightarrow> real \<Rightarrow> real" where
  "js_minus x y = nearestDouble (x - y)"

definition js_div :: "real \<Rightarrow> real \<Rightarrow> real" where
  "js_div x y = nearestDouble (x / y)"

section \<open>Configuration document and its accessors\<close>

text \<open>
  The game configuration is a JSON document fetched once (\<open>GameConfigProvider\<close>).
  The symbol table keeps the key order of the object.
\<close>

type_synonym SymbolId = string

record FrontendSymbolConfig =
  name :: string
  image :: string

record FrontendGameConfig =
  gameId :: "string option"
  numReels :: "int option"
  numRows :: "int option"
  betAmounts :: "real list option"
  freeSpinsAwarded :: "int option"
  scatterSymbol :: "string option"
  bookSymbol :: "string option"
  symbols :: "(string \<times> FrontendSymbolConfig) list option"
  paylines :: "int list list option"
  reelStrips :: "SymbolId list list option"

text \<open>JavaScript truthiness of an optional number: \<open>undefined\<close> and \<open>0\<close> are falsy.\<close>

definition truthy_num :: "int option \<Rightarrow> bool" where
  "truthy_num v = (case v of None \<Rightarrow> False | Some n \<Rightarrow> n \<noteq> 0)"

text \<open>An object or array is truthy whenever it is present, even when empty.\<close>

definition truthy_obj :: "'a option \<Rightarrow> bool" where
  "truthy_obj v = (case v of None \<Rightarrow> False | Some _ \<Rightarrow> True)"

datatype fetch_result =
    FetchRejected string
  | ResponseNotOk
  | ResponseJson FrontendGameConfig

record GameConfigContextType =
  config :: "FrontendGameConfig option"
  loading :: bool
  error :: "string option"

text \<open>
  \<open>loadConfig\<close> inside \<open>GameConfigProvider\<close>: the state starts with no configuration,
  the fetch result is validated, and \<open>finally\<close> clears the loading flag.
\<close>

definition loadConfig :: "string \<Rightarrow> fetch_result \<Rightarrow> GameConfigContextType" where
  "loadConfig gid r =
    (case r of
       FetchRejected msg \<Rightarrow> \<lparr>config = None, loading = False, error = Some msg\<rparr>
     | ResponseNotOk \<Rightarrow>
         \<lparr>config = None, loading = False,
          error = Some (''Failed to load game config for: '' @ gid)\<rparr>
     | ResponseJson loadedConfig \<Rightarrow>
         (if \<not> truthy_num (numReels loadedConfig) \<or> \<not> truthy_num (numRows loadedConfig)
             \<or> \<not> truthy_obj (symbols loadedConfig) \<or> \<not> truthy_obj (paylines loadedConfig)
          then \<lparr>config = None, loading = False,
                error = Some ''Invalid game configuration: missing required fields''\<rparr>
          else \<lparr>config = Some loadedConfig, loading = False, error = None\<rparr>))"

text \<open>The accessor hooks of \<open>slot-config.ts\<close>, each with its \<open>??\<close> default.\<close>

definition useNumReels :: "FrontendGameConfig option \<Rightarrow> int" where
  "useNumReels c =
    (case c of None \<Rightarrow> 5 | Some cfg \<Rightarrow> (case numReels cfg of None \<Rightarrow> 5 | Some n \<Rightarrow> n))"

definition useNumRows :: "FrontendGameConfig option \<Rightarrow> int" where
  "useNumRows c =
    (case c of None \<Rightarrow> 3 | Some cfg \<Rightarrow> (case numRows cfg of None \<Rightarrow> 3 | Some n \<Rightarrow> n))"

definition usePaylines :: "FrontendGameConfig option \<Rightarrow> int list list" where
  "usePaylines c =
    (case c of None \<Rightarrow> [] | Some cfg \<Rightarrow> (case paylines cfg of None \<Rightarrow> [] | Some p \<Rightarrow> p))"

definition useBetAmounts :: "FrontendGameConfig option \<Rightarrow> real list" where
  "useBetAmounts c =
    (case c of None \<Rightarrow> [1, 2, 3, 5, 10]
     | Some cfg \<Rightarrow> (case betAmounts cfg of None \<Rightarrow> [1, 2, 3, 5, 10] | Some b \<Rightarrow> b))"

definition useFreeSpinsAwarded :: "FrontendGameConfig option \<Rightarrow> int" where
  "useFreeSpinsAwarded c =
    (case c of None \<Rightarrow> 10
     | Some cfg \<Rightarrow> (case freeSpinsAwarded cfg of None \<Rightarrow> 10 | Some n \<Rightarrow> n))"

text \<open>
  \<open>useReelStrips\<close>: the configured strips when present and non-empty, otherwise one
  strip per reel listing every symbol id. The fallback may throw (\<open>None\<close>):
  \<open>Object.keys\<close> on an absent symbol table, \<open>Array(n)\<close> on a negative count;
  \<open>Array(undefined)\<close> is an array of length one.
\<close>

definition useReelStrips :: "FrontendGameConfig option \<Rightarrow> SymbolId list list option" where
  "useReelStrips c =
    (case c of None \<Rightarrow> Some []
     | Some cfg \<Rightarrow>
        (case reelStrips cfg of
           Some (s # ss) \<Rightarrow> Some (s # ss)
         | _ \<Rightarrow>
            (case symbols cfg of
               None \<Rightarrow> None
             | Some tab \<Rightarrow>
                 (case numReels cfg of
                    None \<Rightarrow> Some [map fst tab]
                  | Some n \<Rightarrow>
                      (if n < 0 then None else Some (replicate (nat n) (map fst tab)))))))"

text \<open>What \<open>SlotMachine\<close> renders: the loading placeholder as long as there is no
  configuration, the game otherwise.\<close>

datatype view = LoadingGame | GameScreen

definition slotMachineView :: "GameConfigContextType \<Rightarrow> view" where
  "slotMachineView ctx = (case config ctx of None \<Rightarrow> LoadingGame | Some _ \<Rightarrow> GameScreen)"

section \<open>Bet selection\<close>

text \<open>\<open>Array.prototype.indexOf\<close>: the first position holding the value, \<open>-1\<close> when
  there is none.\<close>

fun indexOf :: "'a list \<Rightarrow> 'a \<Rightarrow> int" where
  "indexOf [] v = -1"
| "indexOf (x # xs) v =
     (if x = v then 0 else (let i = indexOf xs v in if i = -1 then -1 else i + 1))"

text \<open>Reading an array element: out of range gives \<open>undefined\<close> (\<open>None\<close>).\<close>

definition js_nth :: "'a list \<Rightarrow> int \<Rightarrow> 'a option" where
  "js_nth xs i = (if 0 \<le> i \<and> i < int (length xs) then Some (xs ! nat i) else None)"

text \<open>
  The outcome of a bet handler: it returns early without a configuration, it throws
  when the configuration has no \<open>betAmounts\<close>, and otherwise it calls
  \<open>setBetAmount\<close> with the element read (possibly \<open>undefined\<close>).
\<close>

datatype bet_outcome = NoCall | Throws | SetBetAmount "real option"

definition handleIncreaseBet :: "FrontendGameConfig option \<Rightarrow> real \<Rightarrow> bet_outcome" where
  "handleIncreaseBet c betAmount =
    (case c of
       None \<Rightarrow> NoCall
     | Some cfg \<Rightarrow>
        (case betAmounts cfg of
           None \<Rightarrow> Throws
         | Some menu \<Rightarrow>
            (let currentIndex = indexOf menu betAmount in
             if currentIndex = -1 then SetBetAmount (js_nth menu 0)
             else (let nextIndex = (currentIndex + 1) mod int (length menu)
                   in SetBetAmount (js_nth menu nextIndex)))))"

definition handleDecreaseBet :: "FrontendGameConfig option \<Rightarrow> real \<Rightarrow> bet_outcome" where
  "handleDecreaseBet c betAmount =
    (case c of
       None \<Rightarrow> NoCall
     | Some cfg \<Rightarrow>
        (case betAmounts cfg of
           None \<Rightarrow> Throws
         | Some menu \<Rightarrow>
            (let currentIndex = indexOf menu betAmount in
             if currentIndex = -1 then SetBetAmount (js_nth menu 0)
             else (let prevIndex = (if currentIndex = 0 then int (length menu) - 1
                                    else currentIndex - 1)
                   in SetBetAmount (js_nth menu prevIndex)))))"

section \<open>Sample configuration\<close>

definition sampleSymbols :: "(string \<times> FrontendSymbolConfig) list" where
  "sampleSymbols =
     [(''Queen'', \<lparr>name = ''Queen'', image = ''/images/symbols/Queen.png''\<rparr>),
      (''Scatter'', \<lparr>name = ''Scatter'', image = ''/images/symbols/Scatter.png''\<rparr>)]"

definition minimalDoc :: FrontendGameConfig where
  "minimalDoc =
     \<lparr>gameId = None, numReels = Some 5, numRows = Some 3, betAmounts = None,
      freeSpinsAwarded = None, scatterSymbol = None, bookSymbol = None,
      symbols = Some sampleSymbols,
      paylines = Some [[1, 1, 1, 1, 1], [0, 0, 0, 0, 0]],
      reelStrips = None\<rparr>"

section \<open>Server messages\<close>

text \<open>
  The shapes of \<open>game-api.ts\<close>. Fields of different records that share a name in
  the source carry a prefix here (\<open>player.balance\<close> is \<open>playerBalance\<close>, the top
  level \<open>featureSymbol\<close> of a response is \<open>responseFeatureSymbol\<close>).
  An optional field is an \<open>option\<close>.
\<close>

record WinningLine =
  paylineIndex :: int
  symbol :: SymbolId
  count :: int
  payout :: real
  line :: "int list"

record ScatterWin =
  scatterCount :: int
  triggeredFreeSpins :: bool

record ExpandedSymbol =
  reel :: int
  row :: int

record SpinResult =
  totalWin :: real
  resultWinningLines :: "WinningLine list"
  scatterWin :: ScatterWin
  resultGrid :: "SymbolId list list"
  actionGameTriggered :: bool
  expandedSymbols :: "ExpandedSymbol list"
  resultFeatureGameWinningLines :: "WinningLine list option"

record PlayerState =
  playerBalance :: real
  playerFreeSpinsRemaining :: int
  playerLastWin :: real
  results :: SpinResult
  playerFeatureSymbol :: string
  accumulatedActionGameWin :: "real option"

record PlayResponse =
  player :: PlayerState
  freeSpins :: int
  responseActionGameSpins :: int
  responseFeatureSymbol :: string

record PlayRequest =
  reqSessionId :: string
  reqBetAmount :: real
  reqNumPaylines :: int
  reqBetPerPayline :: real
  reqActionGameSpins :: "int option"
  reqGameId :: string

record ActionGameResult =
  win :: real
  additionalSpins :: int
  wheelResult :: string

record ActionGameSpinResponse =
  result :: ActionGameResult
  remainingSpins :: int
  accumulatedWin :: real
  actionBalance :: real

section \<open>Orchestrator state\<close>

record AutoplaySettings =
  numberOfSpins :: int
  stopOnAnyWin :: bool
  stopOnSingleWinExceeds :: real
  stopOnFeature :: bool
  stopOnTotalLossExceeds :: real

record AutoplayState =
  isActive :: bool
  settings :: "AutoplaySettings option"
  spinsRemaining :: int
  totalLoss :: real
  originalBalance :: real

record Feedback =
  feedbackText :: string
  winAmount :: real
  animationType :: string

text \<open>The notifications raised through \<open>toast\<close>, named by their titles.\<close>

datatype Toast =
    InsufficientBalance
  | ConnectionError string
  | AutoplayStarted int
  | AutoplayStopped
  | AutoplayInsufficientBalance
  | ActionGameWon int

text \<open>
  Callbacks handed to \<open>setTimeout\<close> without being awaited: the continuation of
  \<open>startReelsSequentially\<close> after reel \<open>i\<close> was started, and the reset of the bounce
  flag of reel \<open>i\<close>.
\<close>

datatype timer = StartReelDelay nat | BounceReset nat

text \<open>
  The state of \<open>SlotMachine\<close> together with the state that \<open>Home\<close> owns and passes
  down as properties (bet amount, bonus-wheel and feature-selection state), the
  cancellation reference, and the observable effects: notifications shown, requests sent
  to \<open>/play\<close>, and callbacks waiting in the timer queue. An \<open>undefined\<close> reel of the grid
  is the empty reel, which is what every reader of the grid makes of it
  (\<open>grid[i] || []\<close>, \<open>grid[i]?.[j]\<close>).
\<close>

record SlotState =
  grid :: "SymbolId list list"
  spinningReels :: "bool list"
  bouncingReels :: "bool list"
  expandingReels :: "bool list"
  reelsToExpand :: "int list"
  balance :: real
  lastWin :: real
  winningLines :: "WinningLine list"
  baseGameWinningLines :: "WinningLine list"
  featureGameWinningLines :: "WinningLine list"
  sessionId :: string
  freeSpinsRemaining :: int
  featureSymbol :: string
  wasInFreeSpinsMode :: bool
  showFeatureGameWins :: bool
  isTurboMode :: bool
  autoplayState :: AutoplayState
  showAutoplayDialog :: bool
  winningFeedback :: "Feedback option"
  spinCancelledRef :: bool
  betAmount :: real
  showActionWheel :: bool
  actionGameSpins :: int
  accumulatedActionWin :: real
  pendingBalanceUpdateRef :: "real option"
  showFeatureSymbolSelection :: bool
  selectedFeatureSymbol :: string
  freeSpinsCount :: int
  toasts :: "Toast list"
  requests :: "PlayRequest list"
  timers :: "timer list"

text \<open>
  The values a \<open>spin\<close> closure takes from the configuration hooks: reel and row count,
  the constant number of paylines, the game id sent to the server
  (\<open>config?.gameId || 'INFERNO_EMPRESS'\<close>) and the scatter symbol
  (\<open>config?.bookSymbol || config?.scatterSymbol || 'Scatter'\<close>).
\<close>

record SpinEnv =
  envNumReels :: nat
  envNumRows :: nat
  envNumPaylines :: int
  envGameId :: string
  envScatterSymbol :: string

text \<open>
  Writing \<open>xs[i] = v\<close> on a copy of an array: past the end the array grows, and the
  holes left in between read as \<open>hole\<close> (falsy for a flag array, no reel for the grid).
\<close>

definition js_store :: "'a \<Rightarrow> 'a list \<Rightarrow> nat \<Rightarrow> 'a \<Rightarrow> 'a list" where
  "js_store hole xs i v =
     (if i < length xs then xs[i := v] else xs @ replicate (i - length xs) hole @ [v])"

definition some_true :: "bool list \<Rightarrow> bool" where
  "some_true xs = list_ex (\<lambda>b. b) xs"

definition isSpinning :: "SlotState \<Rightarrow> bool" where
  "isSpinning s = some_true (spinningReels s)"

definition isFreeSpinsMode :: "SlotState \<Rightarrow> bool" where
  "isFreeSpinsMode s = (freeSpinsRemaining s > 0)"

definition isAnimating :: "SlotState \<Rightarrow> bool" where
  "isAnimating s =
     (isSpinning s \<or> winningFeedback s \<noteq> None \<or> some_true (expandingReels s)
      \<or> some_true (bouncingReels s) \<or> showFeatureSymbolSelection s \<or> showActionWheel s
      \<or> showFeatureGameWins s)"

definition allFalse :: "SpinEnv \<Rightarrow> bool list" where
  "allFalse env = replicate (envNumReels env) False"

section \<open>Home: bonus-wheel and feature-selection handlers\<close>

definition handleActionWheelStateChange :: "bool \<Rightarrow> int \<Rightarrow> real \<Rightarrow> SlotState \<Rightarrow> SlotState" where
  "handleActionWheelStateChange showWheel spins accumulated s =
     s\<lparr>showActionWheel := showWheel, actionGameSpins := spins,
       accumulatedActionWin := accumulated\<rparr>"

text \<open>\<open>handleActionWheelSpin\<close> once \<open>spinActionGame\<close> has answered; without a session
  id it throws before any request (\<open>None\<close>).\<close>

definition handleActionWheelSpin ::
  "ActionGameSpinResponse \<Rightarrow> SlotState \<Rightarrow> (SlotState \<times> ActionGameResult) option" where
  "handleActionWheelSpin response s =
     (if sessionId s = [] then None
      else Some
        (s\<lparr>actionGameSpins := remainingSpins response,
           accumulatedActionWin := accumulatedWin response,
           showActionWheel := (if remainingSpins response > 0 then True else showActionWheel s),
           pendingBalanceUpdateRef := Some (actionBalance response)\<rparr>,
         result response))"

definition handleActionWheelComplete :: "SlotState \<Rightarrow> SlotState" where
  "handleActionWheelComplete s = s\<lparr>showActionWheel := False, actionGameSpins := 0\<rparr>"

definition handleFeatureSymbolSelectionStateChange ::
  "bool \<Rightarrow> string \<Rightarrow> int \<Rightarrow> SlotState \<Rightarrow> SlotState" where
  "handleFeatureSymbolSelectionStateChange sh fsym cnt s =
     s\<lparr>showFeatureSymbolSelection := sh, selectedFeatureSymbol := fsym, freeSpinsCount := cnt\<rparr>"

definition handleFeatureSymbolSelectionComplete :: "SlotState \<Rightarrow> SlotState" where
  "handleFeatureSymbolSelectionComplete s =
     s\<lparr>showFeatureSymbolSelection := False, selectedFeatureSymbol := [], freeSpinsCount := 0\<rparr>"

section \<open>Autoplay\<close>

definition startAutoplay :: "AutoplaySettings \<Rightarrow> SlotState \<Rightarrow> SlotState" where
  "startAutoplay st s =
     s\<lparr>autoplayState :=
         \<lparr>isActive = True, settings = Some st, spinsRemaining = numberOfSpins st,
          totalLoss = 0, originalBalance = balance s\<rparr>,
       toasts := toasts s @ [AutoplayStarted (numberOfSpins st)]\<rparr>"

definition stopAutoplay :: "SlotState \<Rightarrow> SlotState" where
  "stopAutoplay s =
     s\<lparr>autoplayState :=
         \<lparr>isActive = False, settings = None, spinsRemaining = 0,
          totalLoss = 0, originalBalance = 0\<rparr>,
       toasts := toasts s @ [AutoplayStopped]\<rparr>"

text \<open>\<open>checkAutoplayStopConditions\<close> reads the autoplay state and the balance of the
  render that created it (the state \<open>c\<close>).\<close>

definition checkAutoplayStopConditions :: "SlotState \<Rightarrow> SpinResult \<Rightarrow> bool" where
  "checkAutoplayStopConditions c spinResult =
     (if \<not> isActive (autoplayState c) then False
      else (case settings (autoplayState c) of
          None \<Rightarrow> False
        | Some st \<Rightarrow>
            (if stopOnAnyWin st \<and> totalWin spinResult > 0 then True
             else if totalWin spinResult > stopOnSingleWinExceeds st then True
             else if stopOnFeature st \<and> triggeredFreeSpins (scatterWin spinResult) then True
             else if js_minus (originalBalance (autoplayState c)) (balance c)
                       > stopOnTotalLossExceeds st
               then True
             else False)))"

section \<open>The spin round as a coroutine\<close>

text \<open>
  \<open>spin\<close> is an \<open>async\<close> function: it runs until the next \<open>await\<close>, and the event
  loop resumes it later. Each suspension point is a program point \<open>pc\<close>; the code
  between two suspension points is one function on the state (a segment), which returns
  the new state and either the point at which the round waits next or the value the
  promise resolves with (\<open>null\<close>, and the early \<open>return;\<close>, are \<open>None\<close>). Durations
  are not part of the state: only the order of resumptions matters.

  A segment reads the values its closure captured (the state \<open>c\<close> of the render that
  created \<open>spin\<close>, and the hook values \<open>env\<close>), reads the cancellation reference from
  the live state, and writes to the live state \<open>s\<close>.
\<close>

datatype pc =
    AwaitTick
  | AwaitNetwork
  | AwaitMinSpin
  | AwaitStopDelay nat
  | AwaitGridUpdate nat
  | AwaitSettle
  | AwaitShowGrid
  | AwaitPreExpand
  | AwaitExpandShow nat
  | AwaitExpandHold nat
  | AwaitPostExpand
  | AwaitFeatureDwell
  | AwaitNoFeatureDwell

datatype outcome = Await pc | Return "SpinResult option"

subsection \<open>Values computed from the response\<close>

text \<open>\<open>Array.from(new Set(...))\<close>: the distinct reels in the order of their first
  occurrence.\<close>

definition uniqueReels :: "int list \<Rightarrow> int list" where
  "uniqueReels xs = fold (\<lambda>r acc. if r \<in> set acc then acc else acc @ [r]) xs []"

definition reelsToExpandArray :: "PlayResponse \<Rightarrow> int list" where
  "reelsToExpandArray response =
     (if expandedSymbols (results (player response)) \<noteq> [] \<and> responseFeatureSymbol response \<noteq> []
      then uniqueReels (map reel (expandedSymbols (results (player response))))
      else [])"

definition activePayline :: "SpinEnv \<Rightarrow> WinningLine \<Rightarrow> bool" where
  "activePayline env l = (paylineIndex l = -1 \<or> paylineIndex l < envNumPaylines env)"

definition baseGameLines :: "SpinEnv \<Rightarrow> PlayResponse \<Rightarrow> WinningLine list" where
  "baseGameLines env response =
     filter (activePayline env) (resultWinningLines (results (player response)))"

definition featureGameLines :: "SpinEnv \<Rightarrow> SlotState \<Rightarrow> PlayResponse \<Rightarrow> WinningLine list" where
  "featureGameLines env c response =
     (if isFreeSpinsMode c \<and> responseFeatureSymbol response \<noteq> []
      then (case resultFeatureGameWinningLines (results (player response)) of
              None \<Rightarrow> []
            | Some ls \<Rightarrow> filter (activePayline env) ls)
      else [])"

definition scatterLine :: "PlayResponse \<Rightarrow> WinningLine" where
  "scatterLine response =
     \<lparr>paylineIndex = -1, symbol = ''Scatter'',
      count = scatterCount (scatterWin (results (player response))), payout = 0, line = []\<rparr>"

text \<open>\<open>baseGameLines\<close> after the free-spin branch has pushed the scatter entry.\<close>

definition freeSpinBaseLines :: "SpinEnv \<Rightarrow> PlayResponse \<Rightarrow> WinningLine list" where
  "freeSpinBaseLines env response =
     (if (triggeredFreeSpins (scatterWin (results (player response)))
          \<or> scatterCount (scatterWin (results (player response))) > 0)
         \<and> responseFeatureSymbol response \<noteq> ''Scatter''
      then baseGameLines env response @ [scatterLine response]
      else baseGameLines env response)"

text \<open>\<open>newWinningLines\<close> after the normal-game branch has pushed the scatter entry.\<close>

definition normalGameLines :: "SpinEnv \<Rightarrow> PlayResponse \<Rightarrow> WinningLine list" where
  "normalGameLines env response =
     (if triggeredFreeSpins (scatterWin (results (player response)))
      then baseGameLines env response @ [scatterLine response]
      else baseGameLines env response)"

definition expansionThreshold :: "string \<Rightarrow> nat" where
  "expansionThreshold fs =
     (if fs = ''Queen'' \<or> fs = ''Stone'' \<or> fs = ''Leopard'' \<or> fs = ''Wolf'' then 2 else 3)"

definition willExpand :: "PlayResponse \<Rightarrow> bool" where
  "willExpand response =
     (length (reelsToExpandArray response) \<ge> expansionThreshold (responseFeatureSymbol response)
      \<and> responseFeatureSymbol response \<noteq> [])"

text \<open>The flag array built before the expansion: all false, then true at every reel to
  expand (a negative index adds a property that no reader of the array sees).\<close>

definition markExpanding :: "SpinEnv \<Rightarrow> int list \<Rightarrow> bool list" where
  "markExpanding env reels =
     fold (\<lambda>r acc. if 0 \<le> r then js_store False acc (nat r) True else acc) reels (allFalse env)"

text \<open>\<open>prevGrid.map((reel, idx) => idx === reelIndex ? Array(numRows).fill(symbol) : reel)\<close>\<close>

definition expandReel :: "SpinEnv \<Rightarrow> string \<Rightarrow> int \<Rightarrow> SymbolId list list \<Rightarrow> SymbolId list list" where
  "expandReel env fs reelIndex prevGrid =
     map (\<lambda>(idx, r). if int idx = reelIndex then replicate (envNumRows env) fs else r)
       (zip [0 ..< length prevGrid] prevGrid)"

text \<open>\<open>originalGrid[i]\<close>, with \<open>undefined\<close> as the empty reel.\<close>

definition originalReel :: "PlayResponse \<Rightarrow> nat \<Rightarrow> SymbolId list" where
  "originalReel response i =
     (if i < length (resultGrid (results (player response)))
      then resultGrid (results (player response)) ! i else [])"

definition getWinMessage :: "real \<Rightarrow> string" where
  "getWinMessage w =
     (if w \<le> 5 then ''Congratulations!''
      else if w \<le> 10 then ''Well done!''
      else if w \<le> 15 then ''Nice win!''
      else if w \<le> 25 then ''Great job!''
      else if w \<le> 50 then ''Excellent!''
      else if w \<le> 100 then ''Outstanding!''
      else if w \<le> 200 then ''Incredible!''
      else if w \<le> 300 then ''Amazing!''
      else ''MEGA WIN!'')"

definition getWinningFeedback :: "real \<Rightarrow> Feedback" where
  "getWinningFeedback w =
     \<lparr>feedbackText = getWinMessage w, winAmount = w, animationType = ''coins''\<rparr>"

subsection \<open>Entry: guards and synchronous reset (lines 1649-1685)\<close>

definition spin :: "SpinEnv \<Rightarrow> SlotState \<Rightarrow> SlotState \<times> outcome" where
  "spin env s =
     (if isFreeSpinsMode s \<and> isAnimating s then (s, Return None)
      else if \<not> isFreeSpinsMode s \<and> isSpinning s then (s, Return None)
      else if sessionId s = [] then (s, Return None)
      else if balance s < betAmount s \<and> freeSpinsRemaining s = 0 \<and> actionGameSpins s = 0
        then (s\<lparr>toasts := toasts s @ [InsufficientBalance]\<rparr>, Return None)
      else
        (s\<lparr>spinCancelledRef := True,
           lastWin := 0,
           winningLines := [],
           baseGameWinningLines := [],
           featureGameWinningLines := [],
           showFeatureGameWins := False,
           reelsToExpand := [],
           winningFeedback := None,
           expandingReels := allFalse env,
           bouncingReels := allFalse env,
           spinningReels := allFalse env\<rparr>,
         Await AwaitTick))"

subsection \<open>Staggered reel start (lines 1696-1710)\<close>

text \<open>One pass through the loop head of \<open>startReelsSequentially\<close> at index \<open>i\<close>: it
  stops when cancelled, otherwise marks reel \<open>i\<close> spinning and waits.\<close>

definition startReelsFrom :: "SpinEnv \<Rightarrow> nat \<Rightarrow> SlotState \<Rightarrow> SlotState" where
  "startReelsFrom env i s =
     (if i < envNumReels env then
        (if spinCancelledRef s then s
         else s\<lparr>spinningReels := js_store False (spinningReels s) i True,
                timers := timers s @ [StartReelDelay i]\<rparr>)
      else s)"

text \<open>A callback of the timer queue fires.\<close>

definition fireTimer :: "SpinEnv \<Rightarrow> timer \<Rightarrow> SlotState \<Rightarrow> SlotState" where
  "fireTimer env t s =
     (let s0 = s\<lparr>timers := remove1 t (timers s)\<rparr> in
      case t of
        StartReelDelay i \<Rightarrow> startReelsFrom env (Suc i) s0
      | BounceReset i \<Rightarrow> s0\<lparr>bouncingReels := js_store False (bouncingReels s0) i False\<rparr>)"

subsection \<open>Request (lines 1687-1734)\<close>

definition playRequest :: "SpinEnv \<Rightarrow> SlotState \<Rightarrow> PlayRequest" where
  "playRequest env c =
     \<lparr>reqSessionId = sessionId c,
      reqBetAmount = betAmount c,
      reqNumPaylines = envNumPaylines env,
      reqBetPerPayline = js_div (betAmount c) 5,
      reqActionGameSpins =
        (if \<not> isFreeSpinsMode c \<and> actionGameSpins c > 0 then Some (actionGameSpins c) else None),
      reqGameId = envGameId env\<rparr>"

definition afterTick :: "SpinEnv \<Rightarrow> SlotState \<Rightarrow> SlotState \<Rightarrow> SlotState \<times> outcome" where
  "afterTick env c s =
     (let s1 = s\<lparr>spinCancelledRef := False\<rparr>;
          s2 = startReelsFrom env 0 s1
      in if spinCancelledRef s2 then (s2, Return None)
         else (s2\<lparr>requests := requests s2 @ [playRequest env c]\<rparr>, Await AwaitNetwork))"

subsection \<open>Failure of the request (lines 2197-2210)\<close>

definition playGameRejected :: "SpinEnv \<Rightarrow> string \<Rightarrow> SlotState \<Rightarrow> SlotState \<times> outcome" where
  "playGameRejected env msg s =
     (let s1 = (if \<not> spinCancelledRef s then s\<lparr>toasts := toasts s @ [ConnectionError msg]\<rparr>
                else s)
      in (s1\<lparr>spinningReels := allFalse env\<rparr>, Return None))"

subsection \<open>State update from the response (lines 2077-2196)\<close>

definition backendAccumulatedWin :: "PlayResponse \<Rightarrow> real" where
  "backendAccumulatedWin response =
     (case accumulatedActionGameWin (player response) of None \<Rightarrow> 0 | Some v \<Rightarrow> v)"

definition updateActionWheel :: "SlotState \<Rightarrow> PlayResponse \<Rightarrow> SlotState \<Rightarrow> SlotState" where
  "updateActionWheel c response s =
     (if isFreeSpinsMode c then
        (if actionGameTriggered (results (player response))
         then handleActionWheelStateChange False (responseActionGameSpins response)
                (backendAccumulatedWin response) s
         else s)
      else if actionGameTriggered (results (player response)) then
        (if \<not> triggeredFreeSpins (scatterWin (results (player response)))
         then handleActionWheelStateChange True (responseActionGameSpins response)
                (backendAccumulatedWin response) s
         else handleActionWheelStateChange False (responseActionGameSpins response)
                (backendAccumulatedWin response) s)
      else handleActionWheelStateChange False (responseActionGameSpins response)
             (backendAccumulatedWin response) s)"

definition freeSpinsCompletion :: "SlotState \<Rightarrow> PlayResponse \<Rightarrow> SlotState \<Rightarrow> SlotState" where
  "freeSpinsCompletion c response s =
     (if freeSpinsRemaining c > 0 \<and> playerFreeSpinsRemaining (player response) = 0 then
        (let s1 = s\<lparr>wasInFreeSpinsMode := True\<rparr> in
         if responseActionGameSpins response > 0 \<or> backendAccumulatedWin response > 0
         then handleActionWheelStateChange True (responseActionGameSpins response)
                (backendAccumulatedWin response) s1
         else s1)
      else if playerFreeSpinsRemaining (player response) > 0
        then s\<lparr>wasInFreeSpinsMode := False\<rparr>
      else s)"

definition notifyResult :: "SlotState \<Rightarrow> PlayResponse \<Rightarrow> SlotState \<Rightarrow> SlotState" where
  "notifyResult c response s =
     (if triggeredFreeSpins (scatterWin (results (player response)))
         \<and> responseFeatureSymbol response \<noteq> [] \<and> \<not> isFreeSpinsMode c
      then handleFeatureSymbolSelectionStateChange True (responseFeatureSymbol response)
             (freeSpins response) s
      else
        (let s1 = (if actionGameTriggered (results (player response)) \<and> \<not> isFreeSpinsMode c
                      \<and> \<not> triggeredFreeSpins (scatterWin (results (player response)))
                   then s\<lparr>toasts := toasts s @ [ActionGameWon (responseActionGameSpins response)]\<rparr>
                   else s)
         in if playerLastWin (player response) > 0
            then s1\<lparr>winningFeedback := Some (getWinningFeedback (playerLastWin (player response)))\<rparr>
            else s1))"

definition finalize :: "SpinEnv \<Rightarrow> SlotState \<Rightarrow> PlayResponse \<Rightarrow> SlotState \<Rightarrow> SlotState \<times> outcome" where
  "finalize env c response s =
     (if spinCancelledRef s then (s, Return None)
      else
        (let s1 = s\<lparr>balance := playerBalance (player response),
                    freeSpinsRemaining := playerFreeSpinsRemaining (player response),
                    featureSymbol := playerFeatureSymbol (player response),
                    lastWin := playerLastWin (player response)\<rparr>;
             s2 = updateActionWheel c response s1;
             s3 = freeSpinsCompletion c response s2;
             s4 = notifyResult c response s3
         in (s4, Return (Some (results (player response))))))"

subsection \<open>Session start (lines 1609-1647)\<close>

text \<open>
  The effect that starts the game session. Without a configuration it returns at once.
  Otherwise it stores the new session id and asks the server for the session; the answer
  has the shape of a play response (\<open>None\<close>: the request failed, the balance
  defaults to 500).
\<close>

definition initializeGame ::
  "FrontendGameConfig option \<Rightarrow> string \<Rightarrow> PlayResponse option \<Rightarrow> SlotState \<Rightarrow> SlotState" where
  "initializeGame cfg newSessionId sessionResponse s =
     (case cfg of
        None \<Rightarrow> s
      | Some _ \<Rightarrow>
          (let s1 = s\<lparr>sessionId := newSessionId\<rparr> in
           case sessionResponse of
             None \<Rightarrow> s1\<lparr>balance := 500\<rparr>
           | Some r \<Rightarrow>
               handleActionWheelStateChange (responseActionGameSpins r > 0)
                 (responseActionGameSpins r) (backendAccumulatedWin r)
                 (s1\<lparr>balance := (if playerBalance (player r) > 0
                                  then playerBalance (player r) else 500),
                     freeSpinsRemaining := freeSpins r,
                     featureSymbol := responseFeatureSymbol r\<rparr>)))"

subsection \<open>Expansion and feature reveal (lines 1940-2060)\<close>

definition cancelExpansion :: "SpinEnv \<Rightarrow> SlotState \<Rightarrow> SlotState \<times> outcome" where
  "cancelExpansion env s = (s\<lparr>expandingReels := allFalse env\<rparr>, Return None)"

definition expansionBranch :: "SpinEnv \<Rightarrow> SlotState \<Rightarrow> PlayResponse \<Rightarrow> SlotState \<Rightarrow> SlotState \<times> outcome" where
  "expansionBranch env c response s =
     (if willExpand response then (s\<lparr>showFeatureGameWins := False\<rparr>, Await AwaitPreExpand)
      else finalize env c response (s\<lparr>showFeatureGameWins := False\<rparr>))"

definition expandLoopHead :: "SpinEnv \<Rightarrow> PlayResponse \<Rightarrow> nat \<Rightarrow> SlotState \<Rightarrow> SlotState \<times> outcome" where
  "expandLoopHead env response k s =
     (if k < length (reelsToExpandArray response) then
        (if spinCancelledRef s then cancelExpansion env s else (s, Await (AwaitExpandShow k)))
      else (s, Await AwaitPostExpand))"

definition afterPreExpand :: "SpinEnv \<Rightarrow> PlayResponse \<Rightarrow> SlotState \<Rightarrow> SlotState \<times> outcome" where
  "afterPreExpand env response s =
     (if spinCancelledRef s then cancelExpansion env s else expandLoopHead env response 0 s)"

definition afterExpandShow :: "SpinEnv \<Rightarrow> PlayResponse \<Rightarrow> nat \<Rightarrow> SlotState \<Rightarrow> SlotState \<times> outcome" where
  "afterExpandShow env response k s =
     (if spinCancelledRef s then cancelExpansion env s
      else (s\<lparr>grid := expandReel env (responseFeatureSymbol response)
                         (reelsToExpandArray response ! k) (grid s)\<rparr>,
            Await (AwaitExpandHold k)))"

definition afterExpandHold :: "SpinEnv \<Rightarrow> PlayResponse \<Rightarrow> nat \<Rightarrow> SlotState \<Rightarrow> SlotState \<times> outcome" where
  "afterExpandHold env response k s =
     (if spinCancelledRef s then cancelExpansion env s
      else expandLoopHead env response (Suc k) s)"

definition afterPostExpand :: "SpinEnv \<Rightarrow> SlotState \<Rightarrow> PlayResponse \<Rightarrow> SlotState \<Rightarrow> SlotState \<times> outcome" where
  "afterPostExpand env c response s =
     (if spinCancelledRef s then cancelExpansion env s
      else
        (let s1 = s\<lparr>showFeatureGameWins := True, expandingReels := allFalse env\<rparr> in
         if featureGameLines env c response \<noteq> [] then
           (s1\<lparr>featureGameWinningLines := featureGameLines env c response,
               winningLines := featureGameLines env c response\<rparr>,
            Await AwaitFeatureDwell)
         else
           (s1\<lparr>winningLines := [], featureGameWinningLines := []\<rparr>,
            Await AwaitNoFeatureDwell)))"

definition afterDwell :: "SpinEnv \<Rightarrow> SlotState \<Rightarrow> PlayResponse \<Rightarrow> SlotState \<Rightarrow> SlotState \<times> outcome" where
  "afterDwell env c response s =
     (if spinCancelledRef s then (s, Return None)
      else finalize env c response (s\<lparr>showFeatureGameWins := False\<rparr>))"

subsection \<open>Reveal of the base game (lines 1803-1938, 2061-2075)\<close>

definition afterSettle :: "SpinEnv \<Rightarrow> SlotState \<Rightarrow> PlayResponse \<Rightarrow> SlotState \<Rightarrow> SlotState \<times> outcome" where
  "afterSettle env c response s =
     (if spinCancelledRef s then (s, Return None)
      else if isFreeSpinsMode c then
        (let s1 = (if willExpand response
                   then s\<lparr>expandingReels := markExpanding env (reelsToExpandArray response)\<rparr>
                   else s)
         in if freeSpinBaseLines env response \<noteq> [] then
              expansionBranch env c response
                (s1\<lparr>winningLines := freeSpinBaseLines env response,
                    baseGameWinningLines := freeSpinBaseLines env response\<rparr>)
            else (s1, Await AwaitShowGrid))
      else finalize env c response (s\<lparr>winningLines := normalGameLines env response\<rparr>))"

definition stopLoopHead :: "SpinEnv \<Rightarrow> nat \<Rightarrow> SlotState \<Rightarrow> SlotState \<times> outcome" where
  "stopLoopHead env i s =
     (if i < envNumReels env then
        (if spinCancelledRef s then (s\<lparr>spinningReels := allFalse env\<rparr>, Return None)
         else (s, Await (AwaitStopDelay i)))
      else if spinCancelledRef s then (s, Return None)
      else (s, Await AwaitSettle))"

definition afterStopDelay :: "SpinEnv \<Rightarrow> PlayResponse \<Rightarrow> nat \<Rightarrow> SlotState \<Rightarrow> SlotState \<times> outcome" where
  "afterStopDelay env response i s =
     (if spinCancelledRef s then (s\<lparr>spinningReels := allFalse env\<rparr>, Return None)
      else (s\<lparr>grid := js_store [] (grid s) i (originalReel response i)\<rparr>,
            Await (AwaitGridUpdate i)))"

definition afterGridUpdate :: "SpinEnv \<Rightarrow> nat \<Rightarrow> SlotState \<Rightarrow> SlotState \<times> outcome" where
  "afterGridUpdate env i s =
     stopLoopHead env (Suc i)
       (s\<lparr>bouncingReels := js_store False (bouncingReels s) i True,
          timers := timers s @ [BounceReset i],
          spinningReels := js_store False (spinningReels s) i False\<rparr>)"

definition afterMinSpin :: "SpinEnv \<Rightarrow> SlotState \<Rightarrow> SlotState \<times> outcome" where
  "afterMinSpin env s =
     (if spinCancelledRef s then (s, Return None)
      else stopLoopHead env 0 (s\<lparr>winningLines := [], showFeatureGameWins := False\<rparr>))"

text \<open>The response arrives \<open>elapsed\<close> milliseconds after the spin started.\<close>

definition playGameResolved ::
  "SpinEnv \<Rightarrow> SlotState \<Rightarrow> PlayResponse \<Rightarrow> int \<Rightarrow> SlotState \<Rightarrow> SlotState \<times> outcome" where
  "playGameResolved env c response elapsed s =
     (let s1 = s\<lparr>reelsToExpand := reelsToExpandArray response\<rparr> in
      if spinCancelledRef s1 then (s1, Return None)
      else if max 0 ((if isTurboMode c then 200 else 600) - elapsed) > 0
        then (s1, Await AwaitMinSpin)
      else afterMinSpin env s1)"

subsection \<open>Resumption and schedules\<close>

definition resume ::
  "SpinEnv \<Rightarrow> SlotState \<Rightarrow> PlayResponse \<Rightarrow> int \<Rightarrow> pc \<Rightarrow> SlotState \<Rightarrow> SlotState \<times> outcome" where
  "resume env c response elapsed p s =
     (case p of
        AwaitTick \<Rightarrow> afterTick env c s
      | AwaitNetwork \<Rightarrow> playGameResolved env c response elapsed s
      | AwaitMinSpin \<Rightarrow> afterMinSpin env s
      | AwaitStopDelay i \<Rightarrow> afterStopDelay env response i s
      | AwaitGridUpdate i \<Rightarrow> afterGridUpdate env i s
      | AwaitSettle \<Rightarrow> afterSettle env c response s
      | AwaitShowGrid \<Rightarrow> expansionBranch env c response s
      | AwaitPreExpand \<Rightarrow> afterPreExpand env response s
      | AwaitExpandShow k \<Rightarrow> afterExpandShow env response k s
      | AwaitExpandHold k \<Rightarrow> afterExpandHold env response k s
      | AwaitPostExpand \<Rightarrow> afterPostExpand env c response s
      | AwaitFeatureDwell \<Rightarrow> afterDwell env c response s
      | AwaitNoFeatureDwell \<Rightarrow> afterDwell env c response s)"

text \<open>
  The events of one round once its request has been answered with \<open>response\<close>: the
  event loop resumes the round at the point where it waits, or fires one of the callbacks
  waiting in the timer queue. A schedule is a list of such events, in the order in which
  the event loop delivers them; resuming a round that has returned does nothing.
\<close>

datatype event = Resume | Fire timer

fun runEvents ::
  "SpinEnv \<Rightarrow> SlotState \<Rightarrow> PlayResponse \<Rightarrow> int \<Rightarrow> event list \<Rightarrow> SlotState \<times> outcome
     \<Rightarrow> SlotState \<times> outcome" where
  "runEvents env c response elapsed [] so = so"
| "runEvents env c response elapsed (Resume # es) (s, Await p) =
     runEvents env c response elapsed es (resume env c response elapsed p s)"
| "runEvents env c response elapsed (Resume # es) (s, Return x) =
     runEvents env c response elapsed es (s, Return x)"
| "runEvents env c response elapsed (Fire t # es) (s, out) =
     runEvents env c response elapsed es
       (if t \<in> set (timers s) then fireTimer env t s else s, out)"

text \<open>A spin issued on the rendered state \<open>s\<close> (which the closure captures), followed
  by a schedule.\<close>

definition spinEvents ::
  "SpinEnv \<Rightarrow> PlayResponse \<Rightarrow> int \<Rightarrow> event list \<Rightarrow> SlotState \<Rightarrow> SlotState \<times> outcome" where
  "spinEvents env response elapsed es s = runEvents env s response elapsed es (spin env s)"

text \<open>The number of resumptions a round still needs at most from a program point.\<close>

definition rank :: "SpinEnv \<Rightarrow> PlayResponse \<Rightarrow> pc \<Rightarrow> nat" where
  "rank env response p =
     (let n = envNumReels env; m = length (reelsToExpandArray response) in
      case p of
        AwaitNoFeatureDwell \<Rightarrow> 1
      | AwaitFeatureDwell \<Rightarrow> 1
      | AwaitPostExpand \<Rightarrow> 2
      | AwaitExpandHold k \<Rightarrow> 3 + 2 * (m - Suc k)
      | AwaitExpandShow k \<Rightarrow> 4 + 2 * (m - Suc k)
      | AwaitPreExpand \<Rightarrow> 5 + 2 * m
      | AwaitShowGrid \<Rightarrow> 6 + 2 * m
      | AwaitSettle \<Rightarrow> 7 + 2 * m
      | AwaitGridUpdate i \<Rightarrow> 8 + 2 * m + 2 * (n - Suc i)
      | AwaitStopDelay i \<Rightarrow> 9 + 2 * m + 2 * (n - Suc i)
      | AwaitMinSpin \<Rightarrow> 10 + 2 * m + 2 * n
      | AwaitNetwork \<Rightarrow> 11 + 2 * m + 2 * n
      | AwaitTick \<Rightarrow> 12 + 2 * m + 2 * n)"

section \<open>Keyboard shortcuts and the autoplay loop\<close>

text \<open>What a key press led to: a reel spin (with the state and outcome of \<open>spin\<close>), a
  spin of the bonus wheel, or a state change without any spin.\<close>

datatype key_result =
    ReelSpin "SlotState \<times> outcome"
  | WheelSpinTrigger
  | NoSpin SlotState

text \<open>The \<open>S\<close> key (lines 2236-2249). \<open>Home\<close> always passes
  \<open>onActionWheelSpinTrigger\<close>.\<close>

definition keySpin :: "SpinEnv \<Rightarrow> SlotState \<Rightarrow> key_result" where
  "keySpin env s =
     (if showActionWheel s \<and> actionGameSpins s > 0 then WheelSpinTrigger
      else if \<not> isAnimating s \<and> sessionId s \<noteq> [] \<and> \<not> showActionWheel s then
        (if balance s \<ge> betAmount s \<or> freeSpinsRemaining s > 0 \<or> actionGameSpins s > 0
         then ReelSpin (spin env s)
         else NoSpin s)
      else NoSpin s)"

text \<open>The \<open>A\<close> key (lines 2259-2267).\<close>

definition keyAutoplay :: "SlotState \<Rightarrow> SlotState" where
  "keyAutoplay s =
     (if \<not> isActive (autoplayState s) then s\<lparr>showAutoplayDialog := True\<rparr>
      else stopAutoplay s)"

text \<open>
  The autoplay effect (lines 2293-2340) run on a rendered state: it does nothing when
  autoplay is off, stops autoplay, schedules the next spin, or waits for a later render.
\<close>

datatype autoplay_step =
    AutoplayOff
  | AutoplayStop SlotState
  | AutoplaySchedule
  | AutoplayWait

definition autoplayEffect :: "SlotState \<Rightarrow> autoplay_step" where
  "autoplayEffect s =
     (if \<not> isActive (autoplayState s) \<or> settings (autoplayState s) = None then AutoplayOff
      else if spinsRemaining (autoplayState s) \<le> 0 then AutoplayStop (stopAutoplay s)
      else if balance s < betAmount s \<and> \<not> isFreeSpinsMode s \<and> actionGameSpins s = 0
        then AutoplayStop
               ((stopAutoplay s)\<lparr>toasts := toasts (stopAutoplay s) @ [AutoplayInsufficientBalance]\<rparr>)
      else if \<not> isAnimating s
              \<and> (balance s \<ge> betAmount s \<or> isFreeSpinsMode s \<or> actionGameSpins s > 0)
        then AutoplaySchedule
      else AutoplayWait)"

text \<open>The scheduled callback, created by the render \<open>c\<close> and cancelled by any later
  render: it calls \<open>spin\<close> unless that render was animating.\<close>

definition autoplayTimerFired :: "SpinEnv \<Rightarrow> SlotState \<Rightarrow> (SlotState \<times> outcome) option" where
  "autoplayTimerFired env c = (if \<not> isAnimating c then Some (spin env c) else None)"

text \<open>The \<open>then\<close> handler once the spin promise has resolved with \<open>spinResult\<close>: the stop
  conditions are those of the render \<open>c\<close> that scheduled the spin, the counter is
  decremented on the live state.\<close>

definition autoplayAfterSpin :: "SlotState \<Rightarrow> SpinResult option \<Rightarrow> SlotState \<Rightarrow> SlotState" where
  "autoplayAfterSpin c spinResult s =
     (case spinResult of
        Some r \<Rightarrow>
          (if checkAutoplayStopConditions c r then stopAutoplay s
           else s\<lparr>autoplayState :=
                    (autoplayState s)\<lparr>spinsRemaining := spinsRemaining (autoplayState s) - 1\<rparr>\<rparr>)
      | None \<Rightarrow>
          s\<lparr>autoplayState :=
               (autoplayState s)\<lparr>spinsRemaining := spinsRemaining (autoplayState s) - 1\<rparr>\<rparr>)"

section \<open>Several rounds in flight\<close>

text \<open>
  Nothing in \<open>spin\<close> waits for an earlier round to return: a second call starts a
  second coroutine on the same state, and the event loop resumes each of them when its own
  wait is over. A round in flight is the closure it captured, the response its request is
  answered with, the delay of that answer, and the point at which it waits (or the value
  it returned).
\<close>

record round =
  roundClosure :: SlotState
  roundResponse :: PlayResponse
  roundElapsed :: int
  roundAt :: outcome

text \<open>
  The events of a play session: the player presses \<open>S\<close> (the request of the round
  this starts will be answered as given), the wait of round \<open>k\<close> is over, or a callback
  of the timer queue fires. The bonus wheel that \<open>S\<close> spins while it is open belongs to
  \<open>Home\<close> and is left out here.
\<close>

datatype sessionEvent = PressS PlayResponse int | Continue nat | Timeout timer

fun runSession ::
  "SpinEnv \<Rightarrow> sessionEvent list \<Rightarrow> SlotState \<times> round list \<Rightarrow> SlotState \<times> round list" where
  "runSession env [] st = st"
| "runSession env (PressS response elapsed # es) (s, rs) =
     runSession env es
       (case keySpin env s of
          ReelSpin (s', out) \<Rightarrow>
            (s', rs @ [\<lparr>roundClosure = s, roundResponse = response,
                          roundElapsed = elapsed, roundAt = out\<rparr>])
        | WheelSpinTrigger \<Rightarrow> (s, rs)
        | NoSpin s' \<Rightarrow> (s', rs))"
| "runSession env (Continue k # es) (s, rs) =
     runSession env es
       (if k < length rs then
          (case roundAt (rs ! k) of
             Await p \<Rightarrow>
               (let so = resume env (roundClosure (rs ! k)) (roundResponse (rs ! k))
                           (roundElapsed (rs ! k)) p s
                in (fst so, rs[k := (rs ! k)\<lparr>roundAt := snd so\<rparr>]))
           | Return x \<Rightarrow> (s, rs))
        else (s, rs))"
| "runSession env (Timeout t # es) (s, rs) =
     runSession env es (if t \<in> set (timers s) then fireTimer env t s else s, rs)"

section \<open>Winning-line borders of a cell\<close>

definition gridSymbol :: "SlotState \<Rightarrow> nat \<Rightarrow> nat \<Rightarrow> SymbolId option" where
  "gridSymbol s reelIndex rowIndex =
     (if reelIndex < length (grid s) \<and> rowIndex < length (grid s ! reelIndex)
      then Some (grid s ! reelIndex ! rowIndex) else None)"

definition isShowingFeatureGameWins :: "SlotState \<Rightarrow> bool" where
  "isShowingFeatureGameWins s =
     (isFreeSpinsMode s \<and> showFeatureGameWins s
      \<and> length (reelsToExpand s) \<ge> expansionThreshold (featureSymbol s))"

definition borderStep :: "SpinEnv \<Rightarrow> SlotState \<Rightarrow> nat \<Rightarrow> nat \<Rightarrow> WinningLine \<Rightarrow> int list \<Rightarrow> int list" where
  "borderStep env s reelIndex rowIndex l acc =
     (if isFreeSpinsMode s \<and> isShowingFeatureGameWins s then acc
      else if paylineIndex l \<noteq> -1 then
        (if paylineIndex l < envNumPaylines env
            \<and> js_nth (line l) (int reelIndex) = Some (int rowIndex)
            \<and> int reelIndex < count l
            \<and> (gridSymbol s reelIndex rowIndex = Some (symbol l)
               \<or> gridSymbol s reelIndex rowIndex = Some (envScatterSymbol env))
         then acc @ [paylineIndex l] else acc)
      else
        (if count l \<ge> 3 \<and> gridSymbol s reelIndex rowIndex = Some (symbol l)
            \<and> (\<not> isFreeSpinsMode s
               \<or> (featureSymbol s \<noteq> ''Scatter'' \<and> \<not> isShowingFeatureGameWins s))
         then acc @ [10] else acc))"

definition getWinningLineIndices :: "SpinEnv \<Rightarrow> SlotState \<Rightarrow> nat \<Rightarrow> nat \<Rightarrow> int list" where
  "getWinningLineIndices env s reelIndex rowIndex =
     (if winningLines s = [] then []
      else
        (let fl = filter (\<lambda>l. paylineIndex l \<noteq> -1 \<and> symbol l = featureSymbol s
                              \<and> paylineIndex l < envNumPaylines env) (winningLines s)
         in if isFreeSpinsMode s \<and> int reelIndex \<in> set (reelsToExpand s)
               \<and> featureSymbol s \<noteq> [] \<and> fl \<noteq> []
            then map paylineIndex fl
            else fold (borderStep env s reelIndex rowIndex) (winningLines s) []))"

section \<open>Sample states and responses\<close>

definition sampleEnv :: SpinEnv where
  "sampleEnv =
     \<lparr>envNumReels = 5, envNumRows = 3, envNumPaylines = 5,
      envGameId = ''INFERNO_EMPRESS'', envScatterSymbol = ''Scatter''\<rparr>"

definition autoplayOff :: AutoplayState where
  "autoplayOff =
     \<lparr>isActive = False, settings = None, spinsRemaining = 0, totalLoss = 0, originalBalance = 0\<rparr>"

text \<open>An idle base-game state on a 5 by 3 grid, balance 500, bet 2.\<close>

definition idleState :: SlotState where
  "idleState =
     \<lparr>grid = replicate 5 [''A'', ''K'', ''Q''],
      spinningReels = replicate 5 False,
      bouncingReels = replicate 5 False,
      expandingReels = replicate 5 False,
      reelsToExpand = [],
      balance = 500,
      lastWin = 0,
      winningLines = [],
      baseGameWinningLines = [],
      featureGameWinningLines = [],
      sessionId = ''session-1'',
      freeSpinsRemaining = 0,
      featureSymbol = [],
      wasInFreeSpinsMode = False,
      showFeatureGameWins = False,
      isTurboMode = False,
      autoplayState = autoplayOff,
      showAutoplayDialog = False,
      winningFeedback = None,
      spinCancelledRef = False,
      betAmount = 2,
      showActionWheel = False,
      actionGameSpins = 0,
      accumulatedActionWin = 0,
      pendingBalanceUpdateRef = None,
      showFeatureSymbolSelection = False,
      selectedFeatureSymbol = [],
      freeSpinsCount = 0,
      toasts = [],
      requests = [],
      timers = []\<rparr>"


definition coinLine :: WinningLine where
  "coinLine = \<lparr>paylineIndex = 0, symbol = ''A'', count = 3, payout = 5, line = [1, 1, 1, 0, 0]\<rparr>"

definition queenLine :: WinningLine where
  "queenLine = \<lparr>paylineIndex = 1, symbol = ''Queen'', count = 5, payout = 40, line = [0, 0, 0, 0, 0]\<rparr>"

definition baseResult :: SpinResult where
  "baseResult =
     \<lparr>totalWin = 5,
      resultWinningLines = [coinLine],
      scatterWin = \<lparr>scatterCount = 0, triggeredFreeSpins = False\<rparr>,
      resultGrid = [[''K'', ''A'', ''Q''], [''Q'', ''A'', ''K''], [''K'', ''A'', ''J''],
                    [''J'', ''Q'', ''K''], [''A'', ''J'', ''Q'']],
      actionGameTriggered = False,
      expandedSymbols = [],
      resultFeatureGameWinningLines = None\<rparr>"

text \<open>A base-game response: one line win of 5 on a bet of 2.\<close>

definition baseResponse :: PlayResponse where
  "baseResponse =
     \<lparr>player =
        \<lparr>playerBalance = 503, playerFreeSpinsRemaining = 0, playerLastWin = 5,
         results = baseResult, playerFeatureSymbol = [], accumulatedActionGameWin = None\<rparr>,
      freeSpins = 0, responseActionGameSpins = 0, responseFeatureSymbol = []\<rparr>"

definition featureResult :: SpinResult where
  "featureResult =
     \<lparr>totalWin = 45,
      resultWinningLines = [coinLine],
      scatterWin = \<lparr>scatterCount = 0, triggeredFreeSpins = False\<rparr>,
      resultGrid = [[''K'', ''A'', ''Q''], [''Queen'', ''A'', ''K''], [''K'', ''A'', ''Queen''],
                    [''J'', ''Q'', ''K''], [''A'', ''J'', ''Q'']],
      actionGameTriggered = False,
      expandedSymbols = [\<lparr>reel = 1, row = 0\<rparr>, \<lparr>reel = 2, row = 2\<rparr>, \<lparr>reel = 1, row = 0\<rparr>],
      resultFeatureGameWinningLines = Some [queenLine]\<rparr>"

text \<open>A free-spin response whose feature symbol Queen expands on reels 1 and 2.\<close>

definition featureResponse :: PlayResponse where
  "featureResponse =
     \<lparr>player =
        \<lparr>playerBalance = 545, playerFreeSpinsRemaining = 6, playerLastWin = 45,
         results = featureResult, playerFeatureSymbol = ''Queen'',
         accumulatedActionGameWin = Some 20\<rparr>,
      freeSpins = 6, responseActionGameSpins = 0, responseFeatureSymbol = ''Queen''\<rparr>"

text \<open>The idle state in free-spin mode with feature symbol Queen.\<close>

definition freeSpinState :: SlotState where
  "freeSpinState = idleState\<lparr>freeSpinsRemaining := 7, featureSymbol := ''Queen''\<rparr>"




text \<open>The idle state after bonus-wheel sessions that accumulated 20.\<close>

definition wheelWinState :: SlotState where
  "wheelWinState = idleState\<lparr>accumulatedActionWin := 20\<rparr>"

section \<open>Two schedules on which the round misbehaves\<close>

text \<open>
  A base-game round up to its settling pause: the staggered start finishes, the response
  arrives after 700 ms, the five reels stop, and the bounce flags are reset. The round
  then waits at \<open>AwaitSettle\<close> with its result not yet shown.
\<close>

definition settlingSchedule :: "event list" where
  "settlingSchedule =
     [Resume, Fire (StartReelDelay 0), Fire (StartReelDelay 1), Fire (StartReelDelay 2),
      Fire (StartReelDelay 3), Fire (StartReelDelay 4), Resume,
      Resume, Resume, Resume, Resume, Resume, Resume, Resume, Resume, Resume, Resume,
      Fire (BounceReset 0), Fire (BounceReset 1), Fire (BounceReset 2),
      Fire (BounceReset 3), Fire (BounceReset 4)]"

definition roundAtSettle :: "SlotState \<times> outcome" where
  "roundAtSettle = spinEvents sampleEnv baseResponse 700 settlingSchedule idleState"

text \<open>During that pause the player presses \<open>S\<close>: a second round starts on the rendered
  state, and its zero-delay timer fires.\<close>

definition newSpinIssued :: "SlotState \<times> outcome" where
  "newSpinIssued = spin sampleEnv (fst roundAtSettle)"

definition newSpinRequested :: "SlotState \<times> outcome" where
  "newSpinRequested = afterTick sampleEnv (fst roundAtSettle) (fst newSpinIssued)"

text \<open>Then the settling pause of the first round ends and the first round is resumed.\<close>

definition staleReveal :: "SlotState \<times> outcome" where
  "staleReveal = resume sampleEnv idleState baseResponse 700 AwaitSettle (fst newSpinRequested)"

text \<open>A state in which a newer spin has just raised the cancellation flag.\<close>

definition cancelledState :: SlotState where
  "cancelledState = fst (spin sampleEnv freeSpinState)"

text \<open>
  A round whose request fails at once: the spin is issued on the idle state, its
  zero-delay timer fires (reel 0 starts, the request is sent), the request is rejected
  before the first stagger timer, and then the stagger timers fire one after the other.
\<close>

definition requestSent :: SlotState where
  "requestSent = fst (afterTick sampleEnv idleState (fst (spin sampleEnv idleState)))"

definition rejectedAtOnce :: "SlotState \<times> outcome" where
  "rejectedAtOnce = playGameRejected sampleEnv ''Failed to fetch'' requestSent"

definition earlyRejection :: SlotState where
  "earlyRejection =
     fold (fireTimer sampleEnv)
       [StartReelDelay 0, StartReelDelay 1, StartReelDelay 2, StartReelDelay 3,
        StartReelDelay 4] (fst rejectedAtOnce)"

section \<open>A free-spin round overtaken by the next one\<close>

text \<open>
  Two responses of the free-spin feature with the feature symbol Queen. The first has no
  base-game line; Queen expands on reels 0, 1 and 2 and pays on payline 0. The second has
  a base-game line; Queen expands on reels 1 and 2 and pays on payline 1.
\<close>

definition wideLine :: WinningLine where
  "wideLine = \<lparr>paylineIndex = 0, symbol = ''Queen'', count = 3, payout = 30, line = [1, 1, 1, 1, 1]\<rparr>"

definition wideResult :: SpinResult where
  "wideResult =
     \<lparr>totalWin = 30,
      resultWinningLines = [],
      scatterWin = \<lparr>scatterCount = 0, triggeredFreeSpins = False\<rparr>,
      resultGrid = [[''Queen'', ''A'', ''Q''], [''K'', ''Queen'', ''J''], [''Queen'', ''K'', ''A''],
                    [''J'', ''Q'', ''K''], [''A'', ''J'', ''Q'']],
      actionGameTriggered = False,
      expandedSymbols = [\<lparr>reel = 0, row = 0\<rparr>, \<lparr>reel = 1, row = 1\<rparr>, \<lparr>reel = 2, row = 0\<rparr>],
      resultFeatureGameWinningLines = Some [wideLine]\<rparr>"

definition wideResponse :: PlayResponse where
  "wideResponse =
     \<lparr>player =
        \<lparr>playerBalance = 530, playerFreeSpinsRemaining = 6, playerLastWin = 30,
         results = wideResult, playerFeatureSymbol = ''Queen'',
         accumulatedActionGameWin = None\<rparr>,
      freeSpins = 6, responseActionGameSpins = 0, responseFeatureSymbol = ''Queen''\<rparr>"

definition narrowLine :: WinningLine where
  "narrowLine = \<lparr>paylineIndex = 1, symbol = ''Queen'', count = 2, payout = 10, line = [0, 0, 0, 0, 0]\<rparr>"

definition narrowResult :: SpinResult where
  "narrowResult =
     \<lparr>totalWin = 15,
      resultWinningLines = [coinLine],
      scatterWin = \<lparr>scatterCount = 0, triggeredFreeSpins = False\<rparr>,
      resultGrid = [[''K'', ''A'', ''Q''], [''Queen'', ''A'', ''K''], [''K'', ''A'', ''Queen''],
                    [''J'', ''Q'', ''K''], [''A'', ''J'', ''Q'']],
      actionGameTriggered = False,
      expandedSymbols = [\<lparr>reel = 1, row = 0\<rparr>, \<lparr>reel = 2, row = 2\<rparr>],
      resultFeatureGameWinningLines = Some [narrowLine]\<rparr>"

definition narrowResponse :: PlayResponse where
  "narrowResponse =
     \<lparr>player =
        \<lparr>playerBalance = 545, playerFreeSpinsRemaining = 5, playerLastWin = 15,
         results = narrowResult, playerFeatureSymbol = ''Queen'',
         accumulatedActionGameWin = None\<rparr>,
      freeSpins = 5, responseActionGameSpins = 0, responseFeatureSymbol = ''Queen''\<rparr>"

text \<open>
  The first round up to its settling pause, in normal mode (times in milliseconds after
  the first key press): \<open>S\<close> at 0, the staggered start, the answer at 100, the minimum
  spin time over at 600, the reels stopped one by one until 1100, the bounce flags reset
  until 1400. The settling pause lasts until 1600, and from 1400 on nothing is animating.
\<close>

definition firstRoundSettling :: "sessionEvent list" where
  "firstRoundSettling =
     [PressS wideResponse 100, Continue 0,
      Timeout (StartReelDelay 0), Timeout (StartReelDelay 1), Timeout (StartReelDelay 2),
      Timeout (StartReelDelay 3), Timeout (StartReelDelay 4),
      Continue 0, Continue 0,
      Continue 0, Continue 0, Continue 0, Continue 0, Continue 0, Continue 0,
      Continue 0, Continue 0, Timeout (BounceReset 0), Timeout (BounceReset 1),
      Continue 0, Continue 0,
      Timeout (BounceReset 2), Timeout (BounceReset 3), Timeout (BounceReset 4)]"

text \<open>
  The player presses \<open>S\<close> again at 1500. The second round is answered at 1580, its
  reels stop until 2600 and it settles until 3100; having a base-game line it starts its
  expansion wait at once, expands its two reels and shows its feature line at 6500, to
  return at 8500. The first round resumes at 1600 with the cancellation flag down, shows
  the grid until 2600, expands its three reels and shows its own feature line at 6700.
\<close>

definition secondRoundOvertaking :: "sessionEvent list" where
  "secondRoundOvertaking =
     [PressS narrowResponse 80, Continue 1,
      Timeout (StartReelDelay 0), Timeout (StartReelDelay 1), Timeout (StartReelDelay 2),
      Timeout (StartReelDelay 3), Timeout (StartReelDelay 4),
      Continue 1, Continue 0, Continue 1,
      Continue 1, Continue 1, Continue 1, Continue 1, Continue 1, Continue 1,
      Continue 1, Continue 1, Timeout (BounceReset 0), Timeout (BounceReset 1),
      Continue 1, Continue 1, Continue 0,
      Timeout (BounceReset 2), Timeout (BounceReset 3), Timeout (BounceReset 4),
      Continue 1, Continue 0, Continue 0, Continue 1, Continue 0, Continue 1, Continue 0,
      Continue 1, Continue 0, Continue 1, Continue 0, Continue 1, Continue 0,
      Continue 1, Continue 0, Continue 1]"

definition firstSettling :: "SlotState \<times> round list" where
  "firstSettling = runSession sampleEnv firstRoundSettling (freeSpinState, [])"

definition overtaken :: "SlotState \<times> round list" where
  "overtaken = runSession sampleEnv secondRoundOvertaking firstSettling"

section \<open>Autoplay with the settings the dialog proposes\<close>

text \<open>The initial settings of \<open>AutoplayDialog\<close>; the loss limit is the literal
  \<open>0.05\<close>.\<close>

definition dialogSettings :: AutoplaySettings where
  "dialogSettings =
     \<lparr>numberOfSpins = 100, stopOnAnyWin = False, stopOnSingleWinExceeds = 2000000,
      stopOnFeature = True, stopOnTotalLossExceeds = nearestDouble (5 / 100)\<rparr>"

text \<open>Autoplay started on the idle state (balance 500, bet 2); the render in which the
  autoplay effect schedules the first spin.\<close>

definition autoplayStarted :: SlotState where
  "autoplayStarted = startAutoplay dialogSettings idleState"

definition lostResult :: SpinResult where
  "lostResult =
     \<lparr>totalWin = 0,
      resultWinningLines = [],
      scatterWin = \<lparr>scatterCount = 0, triggeredFreeSpins = False\<rparr>,
      resultGrid = [[''K'', ''A'', ''Q''], [''Q'', ''J'', ''K''], [''K'', ''A'', ''J''],
                    [''J'', ''Q'', ''K''], [''A'', ''J'', ''Q'']],
      actionGameTriggered = False,
      expandedSymbols = [],
      resultFeatureGameWinningLines = None\<rparr>"

text \<open>A base-game response without any win: the bet of 2 is lost.\<close>

definition lostResponse :: PlayResponse where
  "lostResponse =
     \<lparr>player =
        \<lparr>playerBalance = 498, playerFreeSpinsRemaining = 0, playerLastWin = 0,
         results = lostResult, playerFeatureSymbol = [], accumulatedActionGameWin = None\<rparr>,
      freeSpins = 0, responseActionGameSpins = 0, responseFeatureSymbol = []\<rparr>"

text \<open>The first autoplay spin, called by the timer of the render \<open>autoplayStarted\<close>,
  run to its end.\<close>

definition lostRound :: "SlotState \<times> outcome" where
  "lostRound = spinEvents sampleEnv lostResponse 700 (settlingSchedule @ [Resume]) autoplayStarted"

text \<open>The \<open>then\<close> handler of that spin, and what the autoplay effect does on the
  render that follows.\<close>

definition afterLostRound :: SlotState where
  "afterLostRound = autoplayAfterSpin autoplayStarted (Some lostResult) (fst lostRound)"

definition stepAfterLostRound :: autoplay_step where
  "stepAfterLostRound = autoplayEffect afterLostRound"

text \<open>What the autoplay effect does on the render in which autoplay was started.\<close>

definition stepAtStart :: autoplay_step where
  "stepAtStart = autoplayEffect autoplayStarted"

text \<open>The second autoplay spin, called by the timer of the render \<open>afterLostRound\<close>
  and lost as well (the balance falls to 496), and the \<open>then\<close> handler of that spin.\<close>

definition secondLostRound :: "SlotState \<times> outcome" where
  "secondLostRound =
     spinEvents sampleEnv
       (lostResponse\<lparr>player := (player lostResponse)\<lparr>playerBalance := 496\<rparr>\<rparr>) 700
       (settlingSchedule @ [Resume]) afterLostRound"

definition afterSecondLostRound :: SlotState where
  "afterSecondLostRound =
     autoplayAfterSpin afterLostRound (Some lostResult) (fst secondLostRound)"

section \<open>A round after a bonus-wheel session\<close>

text \<open>The base-game round of \<open>baseResponse\<close>, which carries no accumulated bonus
  win, played on the state that holds an accumulated bonus win of 20.\<close>

definition roundAfterWheel :: "SlotState \<times> outcome" where
  "roundAfterWheel =
     spinEvents sampleEnv baseResponse 700 (settlingSchedule @ [Resume]) wheelWinState"

section \<open>A configuration document without bet menu\<close>

text \<open>The context after \<open>minimalDoc\<close> was fetched: a document with reel and row
  count, symbols and paylines, but without \<open>betAmounts\<close>, \<open>freeSpinsAwarded\<close> and
  \<open>reelStrips\<close>.\<close>

definition minimalContext :: GameConfigContextType where
  "minimalContext = loadConfig ''INFERNO_EMPRESS'' (ResponseJson minimalDoc)"

text \<open>The session that \<open>SlotMachine\<close> starts with that configuration when the
  session request fails, and the first spin of that session.\<close>

definition minimalSession :: SlotState where
  "minimalSession =
     initializeGame (config minimalContext) ''session-1'' None (idleState\<lparr>sessionId := []\<rparr>)"

definition minimalFirstSpin :: "SlotState \<times> outcome" where
  "minimalFirstSpin = spin sampleEnv minimalSession"

section \<open>Invariant of a round that expands\<close>

text \<open>
  \<open>filled k g\<close>: the first \<open>k\<close> reels to expand that lie in the grid \<open>g\<close> hold the
  feature symbol on every row. \<open>expansionInv\<close> states, for each program point of a
  free-spin round that expands, what holds of the state when the round waits there, and
  what holds when it has returned.
\<close>

definition filled :: "SpinEnv \<Rightarrow> PlayResponse \<Rightarrow> nat \<Rightarrow> SymbolId list list \<Rightarrow> bool" where
  "filled env r k g =
     (\<forall>j<k. 0 \<le> reelsToExpandArray r ! j \<and> nat (reelsToExpandArray r ! j) < length g \<longrightarrow>
        g ! nat (reelsToExpandArray r ! j) = replicate (envNumRows env) (responseFeatureSymbol r))"

fun expansionInv :: "SpinEnv \<Rightarrow> SlotState \<Rightarrow> PlayResponse \<Rightarrow> SlotState \<Rightarrow> outcome \<Rightarrow> bool" where
  "expansionInv env c r s (Await AwaitTick) = True"
| "expansionInv env c r s (Await AwaitNetwork) = (\<not> spinCancelledRef s)"
| "expansionInv env c r s (Await AwaitMinSpin) = (\<not> spinCancelledRef s)"
| "expansionInv env c r s (Await (AwaitStopDelay i)) =
     (\<not> spinCancelledRef s \<and> i \<le> length (grid s))"
| "expansionInv env c r s (Await (AwaitGridUpdate i)) =
     (\<not> spinCancelledRef s \<and> Suc i \<le> length (grid s))"
| "expansionInv env c r s (Await AwaitSettle) =
     (\<not> spinCancelledRef s \<and> envNumReels env \<le> length (grid s))"
| "expansionInv env c r s (Await AwaitShowGrid) =
     (\<not> spinCancelledRef s \<and> envNumReels env \<le> length (grid s))"
| "expansionInv env c r s (Await AwaitPreExpand) =
     (\<not> spinCancelledRef s \<and> envNumReels env \<le> length (grid s))"
| "expansionInv env c r s (Await (AwaitExpandShow k)) =
     (\<not> spinCancelledRef s \<and> envNumReels env \<le> length (grid s)
      \<and> k < length (reelsToExpandArray r) \<and> filled env r k (grid s))"
| "expansionInv env c r s (Await (AwaitExpandHold k)) =
     (\<not> spinCancelledRef s \<and> envNumReels env \<le> length (grid s)
      \<and> k < length (reelsToExpandArray r) \<and> filled env r (Suc k) (grid s))"
| "expansionInv env c r s (Await AwaitPostExpand) =
     (\<not> spinCancelledRef s \<and> envNumReels env \<le> length (grid s)
      \<and> filled env r (length (reelsToExpandArray r)) (grid s))"
| "expansionInv env c r s (Await AwaitFeatureDwell) =
     (\<not> spinCancelledRef s \<and> envNumReels env \<le> length (grid s)
      \<and> filled env r (length (reelsToExpandArray r)) (grid s)
      \<and> winningLines s = featureGameLines env c r)"
| "expansionInv env c r s (Await AwaitNoFeatureDwell) =
     (\<not> spinCancelledRef s \<and> envNumReels env \<le> length (grid s)
      \<and> filled env r (length (reelsToExpandArray r)) (grid s)
      \<and> winningLines s = featureGameLines env c r)"
| "expansionInv env c r s (Return x) =
     (x = Some (results (player r)) \<and> envNumReels env \<le> length (grid s)
      \<and> filled env r (length (reelsToExpandArray r)) (grid s)
      \<and> winningLines s = featureGameLines env c r)"

section \<open>Facts about the bet menu\<close>

lemma indexOf_range: "indexOf xs v = -1 \<or> (0 \<le> indexOf xs v \<and> indexOf xs v < int (length xs))"
  by (induction xs) (auto simp: Let_def)

lemma indexOf_missing: "indexOf xs v = -1 \<longleftrightarrow> v \<notin> set xs"
proof (induction xs)
  case Nil
  show ?case by simp
next
  case (Cons x xs)
  have "indexOf xs v \<noteq> -1 \<Longrightarrow> indexOf xs v + 1 \<noteq> -1"
    using indexOf_range [of xs v] by arith
  with Cons show ?case by (auto simp: Let_def)
qed

lemma indexOf_hd: "indexOf (x # xs) x = 0"
  by simp

lemma indexOf_nth: "indexOf xs v \<noteq> -1 \<Longrightarrow> xs ! nat (indexOf xs v) = v"
proof (induction xs)
  case Nil
  then show ?case by simp
next
  case (Cons x xs)
  show ?case
  proof (cases "x = v")
    case True
    then show ?thesis by simp
  next
    case False
    with Cons.prems have ne: "indexOf xs v \<noteq> -1"
      by (auto simp: Let_def split: if_splits)
    then have nonneg: "0 \<le> indexOf xs v"
      using indexOf_range [of xs v] by arith
    have "nat (indexOf xs v + 1) = Suc (nat (indexOf xs v))"
      using nonneg by simp
    with False ne Cons.IH show ?thesis by (simp add: Let_def)
  qed
qed

lemma indexOf_distinct_last:
  "distinct xs \<Longrightarrow> xs \<noteq> [] \<Longrightarrow> indexOf xs (last xs) = int (length xs) - 1"
proof (induction xs)
  case Nil
  then show ?case by simp
next
  case (Cons x xs)
  show ?case
  proof (cases "xs = []")
    case True
    then show ?thesis by simp
  next
    case False
    with Cons.prems have "x \<noteq> last xs" by auto
    moreover from False Cons have "indexOf xs (last xs) = int (length xs) - 1" by simp
    moreover from False have "int (length xs) - 1 \<noteq> -1" by (cases xs) auto
    ultimately show ?thesis using False by (simp add: Let_def)
  qed
qed


section \<open>Facts about flags and guards\<close>

lemma some_true_iff: "some_true xs \<longleftrightarrow> True \<in> set xs"
  by (auto simp: some_true_def list_ex_iff)

lemma some_true_replicate_False [simp]: "\<not> some_true (replicate n False)"
  by (simp add: some_true_iff)

lemma some_true_allFalse [simp]: "\<not> some_true (allFalse env)"
  by (simp add: allFalse_def)

lemma spin_starts_iff:
  "snd (spin env s) = Await AwaitTick \<longleftrightarrow>
     \<not> (isFreeSpinsMode s \<and> isAnimating s) \<and> \<not> (\<not> isFreeSpinsMode s \<and> isSpinning s)
     \<and> sessionId s \<noteq> []
     \<and> \<not> (balance s < betAmount s \<and> freeSpinsRemaining s = 0 \<and> actionGameSpins s = 0)"
  by (simp add: spin_def)


lemma idle_not_animating: "\<not> isAnimating idleState"
  by (simp add: isAnimating_def isSpinning_def idleState_def)

lemma idle_not_spinning: "\<not> isSpinning idleState"
  by (simp add: isSpinning_def idleState_def)


section \<open>What each part of the final state update leaves unchanged\<close>

lemmas home_defs = handleActionWheelStateChange_def handleFeatureSymbolSelectionStateChange_def

lemma updateActionWheel_frame:
  "autoplayState (updateActionWheel c r s) = autoplayState s"
  "spinCancelledRef (updateActionWheel c r s) = spinCancelledRef s"
  "requests (updateActionWheel c r s) = requests s"
  "grid (updateActionWheel c r s) = grid s"
  "winningLines (updateActionWheel c r s) = winningLines s"
  "spinningReels (updateActionWheel c r s) = spinningReels s"
  "reelsToExpand (updateActionWheel c r s) = reelsToExpand s"
  "showFeatureGameWins (updateActionWheel c r s) = showFeatureGameWins s"
  "timers (updateActionWheel c r s) = timers s"
  "bouncingReels (updateActionWheel c r s) = bouncingReels s"
  "expandingReels (updateActionWheel c r s) = expandingReels s"
  "featureGameWinningLines (updateActionWheel c r s) = featureGameWinningLines s"
  "betAmount (updateActionWheel c r s) = betAmount s"
  "sessionId (updateActionWheel c r s) = sessionId s"
  "balance (updateActionWheel c r s) = balance s"
  "freeSpinsRemaining (updateActionWheel c r s) = freeSpinsRemaining s"
  "featureSymbol (updateActionWheel c r s) = featureSymbol s"
  "lastWin (updateActionWheel c r s) = lastWin s"
  "toasts (updateActionWheel c r s) = toasts s"
  by (simp_all add: updateActionWheel_def home_defs)

lemma freeSpinsCompletion_frame:
  "autoplayState (freeSpinsCompletion c r s) = autoplayState s"
  "spinCancelledRef (freeSpinsCompletion c r s) = spinCancelledRef s"
  "requests (freeSpinsCompletion c r s) = requests s"
  "grid (freeSpinsCompletion c r s) = grid s"
  "winningLines (freeSpinsCompletion c r s) = winningLines s"
  "spinningReels (freeSpinsCompletion c r s) = spinningReels s"
  "reelsToExpand (freeSpinsCompletion c r s) = reelsToExpand s"
  "showFeatureGameWins (freeSpinsCompletion c r s) = showFeatureGameWins s"
  "timers (freeSpinsCompletion c r s) = timers s"
  "bouncingReels (freeSpinsCompletion c r s) = bouncingReels s"
  "expandingReels (freeSpinsCompletion c r s) = expandingReels s"
  "featureGameWinningLines (freeSpinsCompletion c r s) = featureGameWinningLines s"
  "betAmount (freeSpinsCompletion c r s) = betAmount s"
  "sessionId (freeSpinsCompletion c r s) = sessionId s"
  "balance (freeSpinsCompletion c r s) = balance s"
  "freeSpinsRemaining (freeSpinsCompletion c r s) = freeSpinsRemaining s"
  "featureSymbol (freeSpinsCompletion c r s) = featureSymbol s"
  "lastWin (freeSpinsCompletion c r s) = lastWin s"
  "toasts (freeSpinsCompletion c r s) = toasts s"
  by (simp_all add: freeSpinsCompletion_def home_defs Let_def)

lemma notifyResult_frame:
  "autoplayState (notifyResult c r s) = autoplayState s"
  "spinCancelledRef (notifyResult c r s) = spinCancelledRef s"
  "requests (notifyResult c r s) = requests s"
  "grid (notifyResult c r s) = grid s"
  "winningLines (notifyResult c r s) = winningLines s"
  "spinningReels (notifyResult c r s) = spinningReels s"
  "reelsToExpand (notifyResult c r s) = reelsToExpand s"
  "showFeatureGameWins (notifyResult c r s) = showFeatureGameWins s"
  "timers (notifyResult c r s) = timers s"
  "bouncingReels (notifyResult c r s) = bouncingReels s"
  "expandingReels (notifyResult c r s) = expandingReels s"
  "featureGameWinningLines (notifyResult c r s) = featureGameWinningLines s"
  "betAmount (notifyResult c r s) = betAmount s"
  "sessionId (notifyResult c r s) = sessionId s"
  "balance (notifyResult c r s) = balance s"
  "freeSpinsRemaining (notifyResult c r s) = freeSpinsRemaining s"
  "featureSymbol (notifyResult c r s) = featureSymbol s"
  "lastWin (notifyResult c r s) = lastWin s"
  "accumulatedActionWin (notifyResult c r s) = accumulatedActionWin s"
  by (simp_all add: notifyResult_def home_defs Let_def)

lemmas final_frames = updateActionWheel_frame freeSpinsCompletion_frame notifyResult_frame

lemma finalize_frame:
  "autoplayState (fst (finalize env c r s)) = autoplayState s"
  "spinCancelledRef (fst (finalize env c r s)) = spinCancelledRef s"
  "requests (fst (finalize env c r s)) = requests s"
  "grid (fst (finalize env c r s)) = grid s"
  "winningLines (fst (finalize env c r s)) = winningLines s"
  "spinningReels (fst (finalize env c r s)) = spinningReels s"
  "reelsToExpand (fst (finalize env c r s)) = reelsToExpand s"
  "showFeatureGameWins (fst (finalize env c r s)) = showFeatureGameWins s"
  "timers (fst (finalize env c r s)) = timers s"
  "bouncingReels (fst (finalize env c r s)) = bouncingReels s"
  "expandingReels (fst (finalize env c r s)) = expandingReels s"
  "featureGameWinningLines (fst (finalize env c r s)) = featureGameWinningLines s"
  "betAmount (fst (finalize env c r s)) = betAmount s"
  "sessionId (fst (finalize env c r s)) = sessionId s"
  by (simp_all add: finalize_def Let_def final_frames)

lemmas seg_defs = afterTick_def playGameResolved_def afterMinSpin_def afterStopDelay_def
  afterGridUpdate_def afterSettle_def expansionBranch_def afterPreExpand_def afterExpandShow_def
  afterExpandHold_def afterPostExpand_def afterDwell_def stopLoopHead_def expandLoopHead_def
  cancelExpansion_def startReelsFrom_def

lemma resume_autoplayState: "autoplayState (fst (resume env c r el p s)) = autoplayState s"
  by (cases p) (simp_all add: resume_def seg_defs Let_def finalize_frame)

lemma resume_requests:
  "p \<noteq> AwaitTick \<Longrightarrow> requests (fst (resume env c r el p s)) = requests s"
  by (cases p) (simp_all add: resume_def seg_defs Let_def finalize_frame)

lemma resume_spinCancelledRef:
  "p \<noteq> AwaitTick \<Longrightarrow> spinCancelledRef (fst (resume env c r el p s)) = spinCancelledRef s"
  by (cases p) (simp_all add: resume_def seg_defs Let_def finalize_frame)

lemma fireTimer_frame:
  "autoplayState (fireTimer env t s) = autoplayState s"
  "spinCancelledRef (fireTimer env t s) = spinCancelledRef s"
  "requests (fireTimer env t s) = requests s"
  "grid (fireTimer env t s) = grid s"
  "winningLines (fireTimer env t s) = winningLines s"
  "reelsToExpand (fireTimer env t s) = reelsToExpand s"
  "balance (fireTimer env t s) = balance s"
  "freeSpinsRemaining (fireTimer env t s) = freeSpinsRemaining s"
  "featureSymbol (fireTimer env t s) = featureSymbol s"
  "lastWin (fireTimer env t s) = lastWin s"
  "accumulatedActionWin (fireTimer env t s) = accumulatedActionWin s"
  "toasts (fireTimer env t s) = toasts s"
  by (cases t; simp add: fireTimer_def startReelsFrom_def Let_def)+

section \<open>Facts about the accumulated bonus win and autoplay\<close>

lemma updateActionWheel_accumulated:
  "accumulatedActionWin (updateActionWheel c r s) = accumulatedActionWin s
   \<or> accumulatedActionWin (updateActionWheel c r s) = backendAccumulatedWin r"
  by (simp add: updateActionWheel_def home_defs)

lemma freeSpinsCompletion_accumulated:
  "accumulatedActionWin (freeSpinsCompletion c r s) = accumulatedActionWin s
   \<or> accumulatedActionWin (freeSpinsCompletion c r s) = backendAccumulatedWin r"
  by (simp add: freeSpinsCompletion_def home_defs Let_def)

lemma finalize_accumulated:
  "accumulatedActionWin (fst (finalize env c r s)) = accumulatedActionWin s
   \<or> accumulatedActionWin (fst (finalize env c r s)) = backendAccumulatedWin r"
proof (cases "spinCancelledRef s")
  case True
  then show ?thesis by (simp add: finalize_def)
next
  case False
  let ?s1 = "s\<lparr>balance := playerBalance (player r),
                freeSpinsRemaining := playerFreeSpinsRemaining (player r),
                featureSymbol := playerFeatureSymbol (player r),
                lastWin := playerLastWin (player r)\<rparr>"
  let ?s2 = "updateActionWheel c r ?s1"
  have fin: "accumulatedActionWin (fst (finalize env c r s))
      = accumulatedActionWin (freeSpinsCompletion c r ?s2)"
    using False by (simp add: finalize_def Let_def notifyResult_frame)
  have a: "accumulatedActionWin ?s2 = accumulatedActionWin s
      \<or> accumulatedActionWin ?s2 = backendAccumulatedWin r"
    using updateActionWheel_accumulated [of c r ?s1] by simp
  from fin a freeSpinsCompletion_accumulated [of c r ?s2] show ?thesis by auto
qed

lemma finalize_accumulated_frame:
  "accumulatedActionWin s' = accumulatedActionWin s \<Longrightarrow>
   accumulatedActionWin (fst (finalize env c r s')) = accumulatedActionWin s
   \<or> accumulatedActionWin (fst (finalize env c r s')) = backendAccumulatedWin r"
  using finalize_accumulated [of env c r s'] by simp

lemma resume_accumulated:
  "accumulatedActionWin (fst (resume env c r el p s)) = accumulatedActionWin s
   \<or> accumulatedActionWin (fst (resume env c r el p s)) = backendAccumulatedWin r"
proof (cases p)
  case AwaitSettle
  then show ?thesis
    by (simp add: resume_def afterSettle_def expansionBranch_def Let_def finalize_accumulated_frame)
next
  case AwaitShowGrid
  then show ?thesis
    by (simp add: resume_def expansionBranch_def finalize_accumulated_frame)
next
  case AwaitFeatureDwell
  then show ?thesis
    by (simp add: resume_def afterDwell_def finalize_accumulated_frame)
next
  case AwaitNoFeatureDwell
  then show ?thesis
    by (simp add: resume_def afterDwell_def finalize_accumulated_frame)
qed (simp_all add: resume_def seg_defs Let_def)

lemma checkAutoplayStopConditions_iff:
  "checkAutoplayStopConditions c res \<longleftrightarrow>
     isActive (autoplayState c)
     \<and> (\<exists>st. settings (autoplayState c) = Some st
           \<and> (stopOnAnyWin st \<and> totalWin res > 0
              \<or> totalWin res > stopOnSingleWinExceeds st
              \<or> stopOnFeature st \<and> triggeredFreeSpins (scatterWin res)
              \<or> js_minus (originalBalance (autoplayState c)) (balance c)
                   > stopOnTotalLossExceeds st))"
  by (cases "settings (autoplayState c)") (auto simp add: checkAutoplayStopConditions_def)

lemma autoplayEffect_stop_iff:
  "(\<exists>s'. autoplayEffect s = AutoplayStop s') \<longleftrightarrow>
     isActive (autoplayState s) \<and> settings (autoplayState s) \<noteq> None
     \<and> (spinsRemaining (autoplayState s) \<le> 0
        \<or> (balance s < betAmount s \<and> \<not> isFreeSpinsMode s \<and> actionGameSpins s = 0))"
  by (simp add: autoplayEffect_def)

lemma autoplayEffect_stop_inactive:
  "autoplayEffect s = AutoplayStop s' \<Longrightarrow> \<not> isActive (autoplayState s')"
  by (auto simp add: autoplayEffect_def stopAutoplay_def split: if_splits)

lemma autoplayAfterSpin_stop_iff:
  "isActive (autoplayState s) \<Longrightarrow>
   \<not> isActive (autoplayState (autoplayAfterSpin c r s))
     \<longleftrightarrow> (\<exists>res. r = Some res \<and> checkAutoplayStopConditions c res)"
  by (cases r) (simp_all add: autoplayAfterSpin_def stopAutoplay_def)

lemma initializeGame_accumulated:
  "accumulatedActionWin (initializeGame cfg sid answer s)
     = (case cfg of None \<Rightarrow> accumulatedActionWin s
        | Some _ \<Rightarrow> (case answer of None \<Rightarrow> accumulatedActionWin s
                     | Some r \<Rightarrow> backendAccumulatedWin r))"
  by (simp add: initializeGame_def home_defs Let_def split: option.splits)

lemma spin_without_session: "sessionId s = [] \<Longrightarrow> spin env s = (s, Return None)"
  by (simp add: spin_def)

lemma keyAutoplay_stops:
  "isActive (autoplayState s) \<Longrightarrow> \<not> isActive (autoplayState (keyAutoplay s))"
  by (simp add: keyAutoplay_def stopAutoplay_def)

lemma handleActionWheelComplete_accumulated:
  "accumulatedActionWin (handleActionWheelComplete s) = accumulatedActionWin s"
  by (simp add: handleActionWheelComplete_def)

lemma handleActionWheelSpin_accumulated:
  "handleActionWheelSpin w s = Some (s', x) \<Longrightarrow> accumulatedActionWin s' = accumulatedWin w"
  by (auto simp add: handleActionWheelSpin_def split: if_splits)

section \<open>Facts about rounds and schedules\<close>

lemma length_js_store: "length (js_store h xs i v) = max (length xs) (Suc i)"
  by (auto simp: js_store_def)

lemma length_expandReel [simp]: "length (expandReel env fs q g) = length g"
  by (simp add: expandReel_def)

lemma nth_expandReel:
  "i < length g \<Longrightarrow>
   expandReel env fs q g ! i = (if int i = q then replicate (envNumRows env) fs else g ! i)"
  by (simp add: expandReel_def)

lemma filled_expandReel:
  assumes "filled env r k g" and "k < length (reelsToExpandArray r)"
  shows "filled env r (Suc k)
           (expandReel env (responseFeatureSymbol r) (reelsToExpandArray r ! k) g)"
  unfolding filled_def
proof (intro allI impI)
  fix j
  assume j: "j < Suc k"
    and rng: "0 \<le> reelsToExpandArray r ! j \<and>
       nat (reelsToExpandArray r ! j)
         < length (expandReel env (responseFeatureSymbol r) (reelsToExpandArray r ! k) g)"
  let ?q = "reelsToExpandArray r ! j"
  have lt: "nat ?q < length g" using rng by simp
  show "expandReel env (responseFeatureSymbol r) (reelsToExpandArray r ! k) g ! nat ?q
      = replicate (envNumRows env) (responseFeatureSymbol r)"
  proof (cases "int (nat ?q) = reelsToExpandArray r ! k")
    case True
    with lt show ?thesis by (simp add: nth_expandReel)
  next
    case False
    with rng have "j \<noteq> k" by auto
    with j have "j < k" by simp
    with assms(1) rng lt have "g ! nat ?q = replicate (envNumRows env) (responseFeatureSymbol r)"
      by (simp add: filled_def)
    with False lt show ?thesis by (simp add: nth_expandReel)
  qed
qed

lemma finalize_outcome:
  "\<not> spinCancelledRef s \<Longrightarrow> snd (finalize env c r s) = Return (Some (results (player r)))"
  by (simp add: finalize_def Let_def)

lemma willExpand_pos: "willExpand r \<Longrightarrow> 0 < length (reelsToExpandArray r)"
  by (auto simp add: willExpand_def expansionThreshold_def split: if_splits)

lemma expansionInv_resume:
  assumes mode: "isFreeSpinsMode c" and ex: "willExpand r"
    and inv: "expansionInv env c r s (Await p)"
  shows "expansionInv env c r (fst (resume env c r el p s)) (snd (resume env c r el p s))"
proof (cases p)
  case AwaitTick
  then show ?thesis by (simp add: resume_def afterTick_def startReelsFrom_def Let_def)
next
  case AwaitNetwork
  with inv show ?thesis
    by (simp add: resume_def playGameResolved_def afterMinSpin_def stopLoopHead_def Let_def)
next
  case AwaitMinSpin
  with inv show ?thesis
    by (simp add: resume_def afterMinSpin_def stopLoopHead_def)
next
  case (AwaitStopDelay i)
  with inv show ?thesis
    by (simp add: resume_def afterStopDelay_def length_js_store)
next
  case (AwaitGridUpdate i)
  with inv show ?thesis
    by (simp add: resume_def afterGridUpdate_def stopLoopHead_def)
next
  case AwaitSettle
  with inv mode ex show ?thesis
    by (simp add: resume_def afterSettle_def expansionBranch_def Let_def)
next
  case AwaitShowGrid
  with inv ex show ?thesis
    by (simp add: resume_def expansionBranch_def)
next
  case AwaitPreExpand
  with inv willExpand_pos [OF ex] show ?thesis
    by (simp add: resume_def afterPreExpand_def expandLoopHead_def filled_def)
next
  case (AwaitExpandShow k)
  with inv show ?thesis
    by (simp add: resume_def afterExpandShow_def filled_expandReel)
next
  case (AwaitExpandHold k)
  with inv have k: "k < length (reelsToExpandArray r)" by simp
  show ?thesis
  proof (cases "Suc k < length (reelsToExpandArray r)")
    case True
    with AwaitExpandHold inv show ?thesis
      by (simp add: resume_def afterExpandHold_def expandLoopHead_def)
  next
    case False
    with k have "length (reelsToExpandArray r) = Suc k" by simp
    with AwaitExpandHold inv show ?thesis
      by (simp add: resume_def afterExpandHold_def expandLoopHead_def)
  qed
next
  case AwaitPostExpand
  with inv show ?thesis
    by (simp add: resume_def afterPostExpand_def Let_def)
next
  case AwaitFeatureDwell
  with inv show ?thesis
    by (simp add: resume_def afterDwell_def finalize_outcome finalize_frame)
next
  case AwaitNoFeatureDwell
  with inv show ?thesis
    by (simp add: resume_def afterDwell_def finalize_outcome finalize_frame)
qed

lemma expansionInv_fireTimer:
  "expansionInv env c r s out \<Longrightarrow> expansionInv env c r (fireTimer env t s) out"
proof (cases out)
  case (Await p)
  assume "expansionInv env c r s out"
  with Await show ?thesis by (cases p) (simp_all add: fireTimer_frame)
next
  case (Return x)
  assume "expansionInv env c r s out"
  with Return show ?thesis by (simp add: fireTimer_frame)
qed


lemma runEvents_invariant:
  assumes "I s0 o0"
    and step: "\<And>s p. I s (Await p) \<Longrightarrow>
            I (fst (resume env c r el p s)) (snd (resume env c r el p s))"
    and timer: "\<And>s out t. I s out \<Longrightarrow> I (fireTimer env t s) out"
  shows "I (fst (runEvents env c r el es (s0, o0))) (snd (runEvents env c r el es (s0, o0)))"
  using assms(1)
proof (induction es arbitrary: s0 o0)
  case Nil
  then show ?case by simp
next
  case (Cons e es)
  show ?case
  proof (cases e)
    case Resume
    show ?thesis
    proof (cases o0)
      case (Await p)
      have "I (fst (resume env c r el p s0)) (snd (resume env c r el p s0))"
        using step Cons.prems Await by simp
      then have "I (fst (runEvents env c r el es (fst (resume env c r el p s0), snd (resume env c r el p s0))))
                   (snd (runEvents env c r el es (fst (resume env c r el p s0), snd (resume env c r el p s0))))"
        by (rule Cons.IH)
      with Resume Await show ?thesis by simp
    next
      case (Return x)
      with Resume Cons show ?thesis by simp
    qed
  next
    case (Fire t)
    have "I (if t \<in> set (timers s0) then fireTimer env t s0 else s0) o0"
      using timer Cons.prems by simp
    then have "I (fst (runEvents env c r el es (if t \<in> set (timers s0) then fireTimer env t s0 else s0, o0)))
                 (snd (runEvents env c r el es (if t \<in> set (timers s0) then fireTimer env t s0 else s0, o0)))"
      by (rule Cons.IH)
    with Fire show ?thesis by simp
  qed
qed

lemma resume_rank:
  assumes "snd (resume env c r el p s) = Await q"
  shows "rank env r q < rank env r p"
  using assms
  by (cases p) (auto simp add: resume_def seg_defs Let_def rank_def finalize_def split: if_splits)

lemma runEvents_settles:
  "(case o0 of Return x \<Rightarrow> 0 | Await p \<Rightarrow> Suc (rank env r p)) \<le> n
    \<Longrightarrow> \<exists>x. snd (runEvents env c r el (replicate n Resume) (s0, o0)) = Return x"
proof (induction n arbitrary: s0 o0)
  case 0
  then show ?case by (cases o0) auto
next
  case (Suc n)
  show ?case
  proof (cases o0)
    case (Return x)
    have "\<exists>y. snd (runEvents env c r el (replicate n Resume) (s0, Return x)) = Return y"
      by (rule Suc.IH) simp
    with Return show ?thesis by simp
  next
    case (Await p)
    let ?o1 = "snd (resume env c r el p s0)"
    have "(case ?o1 of Return x \<Rightarrow> 0 | Await q \<Rightarrow> Suc (rank env r q)) \<le> n"
    proof (cases ?o1)
      case (Return x)
      then show ?thesis by simp
    next
      case (Await q)
      then have "rank env r q < rank env r p" by (rule resume_rank)
      with Suc.prems \<open>o0 = Await p\<close> Await show ?thesis by simp
    qed
    then have "\<exists>x. snd (runEvents env c r el (replicate n Resume)
                 (fst (resume env c r el p s0), ?o1)) = Return x"
      by (rule Suc.IH)
    with Await show ?thesis by simp
  qed
qed


lemma finalize_completed:
  assumes "snd (finalize env c r s) = Return (Some res)"
  shows "res = results (player r)"
    and "balance (fst (finalize env c r s)) = playerBalance (player r)"
    and "freeSpinsRemaining (fst (finalize env c r s)) = playerFreeSpinsRemaining (player r)"
    and "featureSymbol (fst (finalize env c r s)) = playerFeatureSymbol (player r)"
    and "lastWin (fst (finalize env c r s)) = playerLastWin (player r)"
  using assms by (simp_all add: finalize_def Let_def final_frames split: if_splits)

lemma resume_completed:
  assumes "snd (resume env c r el p s) = Return (Some res)"
  shows "res = results (player r)
    \<and> balance (fst (resume env c r el p s)) = playerBalance (player r)
    \<and> freeSpinsRemaining (fst (resume env c r el p s)) = playerFreeSpinsRemaining (player r)
    \<and> featureSymbol (fst (resume env c r el p s)) = playerFeatureSymbol (player r)
    \<and> lastWin (fst (resume env c r el p s)) = playerLastWin (player r)"
proof (cases p)
  case AwaitSettle
  with assms show ?thesis
    by (auto simp add: resume_def afterSettle_def expansionBranch_def Let_def
        finalize_completed split: if_splits)
next
  case AwaitShowGrid
  with assms show ?thesis
    by (auto simp add: resume_def expansionBranch_def finalize_completed split: if_splits)
next
  case AwaitFeatureDwell
  with assms show ?thesis
    by (auto simp add: resume_def afterDwell_def finalize_completed split: if_splits)
next
  case AwaitNoFeatureDwell
  with assms show ?thesis
    by (auto simp add: resume_def afterDwell_def finalize_completed split: if_splits)
qed (use assms in \<open>simp_all add: resume_def seg_defs Let_def split: if_splits\<close>)

lemma fold_unique:
  "distinct acc \<Longrightarrow>
   distinct (fold (\<lambda>r acc. if r \<in> set acc then acc else acc @ [r]) xs acc)
   \<and> set (fold (\<lambda>r acc. if r \<in> set acc then acc else acc @ [r]) xs acc) = set acc \<union> set xs"
  by (induction xs arbitrary: acc) auto

lemma set_uniqueReels: "set (uniqueReels xs) = set xs"
  using fold_unique [of "[]" xs] by (simp add: uniqueReels_def)

lemma length_uniqueReels: "length (uniqueReels xs) = card (set xs)"
proof -
  have "distinct (uniqueReels xs)"
    using fold_unique [of "[]" xs] by (simp add: uniqueReels_def)
  then have "card (set (uniqueReels xs)) = length (uniqueReels xs)"
    by (rule distinct_card)
  then show ?thesis by (simp add: set_uniqueReels)
qed

lemma spin_started:
  assumes "isFreeSpinsMode s" "\<not> isAnimating s" "sessionId s \<noteq> []"
  shows "snd (spin env s) = Await AwaitTick"
  using assms by (simp add: spin_starts_iff isFreeSpinsMode_def)

lemma spin_outcome_cases:
  "snd (spin env s) = Await AwaitTick \<or> snd (spin env s) = Return None"
  by (simp add: spin_def)

lemma willExpand_cover:
  assumes sym: "responseFeatureSymbol response \<noteq> []"
    and cover: "expansionThreshold (responseFeatureSymbol response)
                  \<le> card (reel ` set (expandedSymbols (results (player response))))"
  shows "willExpand response"
    and "set (reelsToExpandArray response) = reel ` set (expandedSymbols (results (player response)))"
proof -
  have "0 < expansionThreshold (responseFeatureSymbol response)"
    by (simp add: expansionThreshold_def)
  with cover have pos: "card (reel ` set (expandedSymbols (results (player response)))) \<noteq> 0"
    by linarith
  have ne: "expandedSymbols (results (player response)) \<noteq> []"
  proof
    assume "expandedSymbols (results (player response)) = []"
    then have "card (reel ` set (expandedSymbols (results (player response)))) = 0" by simp
    with pos show False by simp
  qed
  with sym have arr: "reelsToExpandArray response
      = uniqueReels (map reel (expandedSymbols (results (player response))))"
    by (simp add: reelsToExpandArray_def)
  then show "set (reelsToExpandArray response) = reel ` set (expandedSymbols (results (player response)))"
    by (simp add: set_uniqueReels)
  from arr have "length (reelsToExpandArray response)
      = card (reel ` set (expandedSymbols (results (player response))))"
    by (simp add: length_uniqueReels)
  with cover sym show "willExpand response" by (simp add: willExpand_def)
qed

section \<open>Facts about cancellation and failure\<close>

text \<open>A spin that starts a round raises the flag and clears the transient display state
  without sending anything; the request is sent by the next segment.\<close>

lemma spin_resets_before_request:
  assumes "snd (spin env s) = Await AwaitTick"
  shows "spinCancelledRef (fst (spin env s))"
    and "lastWin (fst (spin env s)) = 0"
    and "winningLines (fst (spin env s)) = []"
    and "baseGameWinningLines (fst (spin env s)) = []"
    and "featureGameWinningLines (fst (spin env s)) = []"
    and "\<not> showFeatureGameWins (fst (spin env s))"
    and "reelsToExpand (fst (spin env s)) = []"
    and "winningFeedback (fst (spin env s)) = None"
    and "expandingReels (fst (spin env s)) = allFalse env"
    and "bouncingReels (fst (spin env s)) = allFalse env"
    and "spinningReels (fst (spin env s)) = allFalse env"
    and "requests (fst (spin env s)) = requests s"
proof -
  from assms have g: "(isFreeSpinsMode s \<and> isAnimating s) = False"
    "(\<not> isFreeSpinsMode s \<and> isSpinning s) = False"
    "(sessionId s = []) = False"
    "(balance s < betAmount s \<and> freeSpinsRemaining s = 0 \<and> actionGameSpins s = 0) = False"
    by (simp_all add: spin_starts_iff)
  have eq: "fst (spin env s) =
        s\<lparr>spinCancelledRef := True,
           lastWin := 0,
           winningLines := [],
           baseGameWinningLines := [],
           featureGameWinningLines := [],
           showFeatureGameWins := False,
           reelsToExpand := [],
           winningFeedback := None,
           expandingReels := allFalse env,
           bouncingReels := allFalse env,
           spinningReels := allFalse env\<rparr>"
    unfolding spin_def by (simp only: g if_False fst_conv)
  show "spinCancelledRef (fst (spin env s))"
    and "lastWin (fst (spin env s)) = 0"
    and "winningLines (fst (spin env s)) = []"
    and "baseGameWinningLines (fst (spin env s)) = []"
    and "featureGameWinningLines (fst (spin env s)) = []"
    and "\<not> showFeatureGameWins (fst (spin env s))"
    and "reelsToExpand (fst (spin env s)) = []"
    and "winningFeedback (fst (spin env s)) = None"
    and "expandingReels (fst (spin env s)) = allFalse env"
    and "bouncingReels (fst (spin env s)) = allFalse env"
    and "spinningReels (fst (spin env s)) = allFalse env"
    and "requests (fst (spin env s)) = requests s"
    by (simp_all add: eq)
qed

lemma afterTick_sends_one_request:
  "snd (afterTick env c s) = Await AwaitNetwork"
  "requests (fst (afterTick env c s)) = requests s @ [playRequest env c]"
  by (simp_all add: afterTick_def startReelsFrom_def Let_def)

text \<open>The suspension points at which the flag is checked first: a cancelled round
  returns \<open>null\<close> there and changes at most the spinning and the expanding flags.\<close>

lemma resume_cancelled_checked:
  assumes "spinCancelledRef s"
    and "p \<notin> {AwaitTick, AwaitNetwork, AwaitShowGrid} \<and> (\<forall>i. p \<noteq> AwaitGridUpdate i)"
  shows "snd (resume env c r el p s) = Return None"
    and "\<exists>sp ex. fst (resume env c r el p s) = s\<lparr>spinningReels := sp, expandingReels := ex\<rparr>"
proof -
  have a: "s = s\<lparr>spinningReels := spinningReels s, expandingReels := expandingReels s\<rparr>"
    by simp
  have b: "s\<lparr>spinningReels := allFalse env\<rparr>
      = s\<lparr>spinningReels := allFalse env, expandingReels := expandingReels s\<rparr>"
    by simp
  have c: "s\<lparr>expandingReels := allFalse env\<rparr>
      = s\<lparr>spinningReels := spinningReels s, expandingReels := allFalse env\<rparr>"
    by simp
  show "snd (resume env c r el p s) = Return None"
    using assms
    by (cases p) (simp_all add: resume_def seg_defs finalize_def)
  show "\<exists>sp ex. fst (resume env c r el p s) = s\<lparr>spinningReels := sp, expandingReels := ex\<rparr>"
  proof (cases p)
    case AwaitMinSpin
    with assms a show ?thesis by (simp only: resume_def pc.case afterMinSpin_def if_True fst_conv) blast
  next
    case (AwaitStopDelay i)
    with assms b show ?thesis
      by (simp only: resume_def pc.case afterStopDelay_def if_True fst_conv) blast
  next
    case AwaitSettle
    with assms a show ?thesis by (simp only: resume_def pc.case afterSettle_def if_True fst_conv) blast
  next
    case AwaitPreExpand
    with assms c show ?thesis
      by (simp only: resume_def pc.case afterPreExpand_def cancelExpansion_def if_True fst_conv) blast
  next
    case (AwaitExpandShow k)
    with assms c show ?thesis
      by (simp only: resume_def pc.case afterExpandShow_def cancelExpansion_def if_True fst_conv) blast
  next
    case (AwaitExpandHold k)
    with assms c show ?thesis
      by (simp only: resume_def pc.case afterExpandHold_def cancelExpansion_def if_True fst_conv) blast
  next
    case AwaitPostExpand
    with assms c show ?thesis
      by (simp only: resume_def pc.case afterPostExpand_def cancelExpansion_def if_True fst_conv) blast
  next
    case AwaitFeatureDwell
    with assms a show ?thesis by (simp only: resume_def pc.case afterDwell_def if_True fst_conv) blast
  next
    case AwaitNoFeatureDwell
    with assms a show ?thesis by (simp only: resume_def pc.case afterDwell_def if_True fst_conv) blast
  qed (use assms in simp_all)
qed

text \<open>The failure path: flags cleared, one notification unless cancelled, no request.\<close>

lemma playGameRejected_aborts:
  "snd (playGameRejected env msg s) = Return None"
  "spinningReels (fst (playGameRejected env msg s)) = allFalse env"
  "\<not> isSpinning (fst (playGameRejected env msg s))"
  "requests (fst (playGameRejected env msg s)) = requests s"
  "\<not> spinCancelledRef s \<Longrightarrow>
     toasts (fst (playGameRejected env msg s)) = toasts s @ [ConnectionError msg]"
  by (simp_all add: playGameRejected_def Let_def isSpinning_def)

section \<open>Claims about the configuration and the bet menu\<close>

text \<open>
  What the loader checks: it rejects a document exactly when the reel count or the row
  count is absent or zero, or the symbol table or the payline list is absent. A rejected
  document (like a failed fetch) leaves no configuration, sets the error of the context
  and keeps \<open>SlotMachine\<close> on its loading placeholder; without a configuration no
  session is started, and without a session id \<open>spin\<close> does nothing. An accepted
  document is stored unchanged with no error, whatever its other fields hold.
\<close>

lemma loadConfig_validation:
  "(if truthy_num (numReels d) \<and> truthy_num (numRows d)
        \<and> truthy_obj (symbols d) \<and> truthy_obj (paylines d)
    then loadConfig gid (ResponseJson d) = \<lparr>config = Some d, loading = False, error = None\<rparr>
    else config (loadConfig gid (ResponseJson d)) = None
       \<and> error (loadConfig gid (ResponseJson d))
           = Some ''Invalid game configuration: missing required fields''
       \<and> slotMachineView (loadConfig gid (ResponseJson d)) = LoadingGame)
   \<and> config (loadConfig gid ResponseNotOk) = None
   \<and> error (loadConfig gid ResponseNotOk) \<noteq> None
   \<and> slotMachineView (loadConfig gid ResponseNotOk) = LoadingGame
   \<and> config (loadConfig gid (FetchRejected msg)) = None
   \<and> error (loadConfig gid (FetchRejected msg)) = Some msg
   \<and> slotMachineView (loadConfig gid (FetchRejected msg)) = LoadingGame
   \<and> initializeGame None sid answer s = s
   \<and> (sessionId s = [] \<longrightarrow> spin env s = (s, Return None))"
  by (simp add: loadConfig_def slotMachineView_def initializeGame_def spin_without_session)

text \<open>
  C9 does not hold of the code. The document \<open>minimalDoc\<close> lacks the bet-amount menu,
  the free-spins count and the reel strips. The loader accepts it with no error, the game
  screen is rendered, the accessor hooks substitute a menu, a free-spins count and reel
  strips of their own, a session is started and the first spin of that session starts a
  round: nothing is blocked and no error state is shown. The bet handlers, which read the
  menu from the document itself, then throw on the absent menu.
\<close>

theorem C9_document_without_bet_menu_accepted:
  "betAmounts minimalDoc = None
   \<and> freeSpinsAwarded minimalDoc = None
   \<and> reelStrips minimalDoc = None
   \<and> config minimalContext = Some minimalDoc
   \<and> error minimalContext = None
   \<and> slotMachineView minimalContext = GameScreen
   \<and> useBetAmounts (config minimalContext) = [1, 2, 3, 5, 10]
   \<and> useFreeSpinsAwarded (config minimalContext) = 10
   \<and> useReelStrips (config minimalContext) = Some (replicate 5 [''Queen'', ''Scatter''])
   \<and> sessionId minimalSession = ''session-1''
   \<and> snd minimalFirstSpin = Await AwaitTick
   \<and> handleIncreaseBet (config minimalContext) 2 = Throws
   \<and> handleDecreaseBet (config minimalContext) 2 = Throws"
  by code_simp

text \<open>
  C10, as stated, fails on a menu with a repeated amount: \<open>indexOf\<close> finds the first
  occurrence, so with the menu \<open>[1, 2, 1]\<close> and the bet \<open>1\<close> (which is the last menu
  entry) increasing gives \<open>2\<close>, not the first entry \<open>1\<close>.
\<close>

theorem C10_duplicate_menu_counterexample:
  "last [1, 2, 1 :: real] = 1
   \<and> handleIncreaseBet (Some (minimalDoc\<lparr>betAmounts := Some [1, 2, 1]\<rparr>)) 1
       = SetBetAmount (Some 2)
   \<and> SetBetAmount (Some 2) \<noteq> SetBetAmount (Some (hd [1, 2, 1 :: real]))"
  by (simp add: handleIncreaseBet_def js_nth_def)

text \<open>
  C10, amended: for every non-empty menu, with the position of the current bet taken as
  its first occurrence (what \<open>indexOf\<close> returns; the only occurrence in a menu without
  repeated amounts): increasing from the last position selects the first entry,
  decreasing from the first position selects the last entry, and a bet that is not in the
  menu makes both operations select the first entry. In a menu without repeated amounts
  the bet equal to the last entry is at the last position; the bet equal to the first
  entry is always at the first position.
\<close>

theorem C10_bet_wraps:
  assumes menu: "betAmounts cfg = Some menu" and ne: "menu \<noteq> []"
  shows "(indexOf menu bet = int (length menu) - 1 \<longrightarrow>
            handleIncreaseBet (Some cfg) bet = SetBetAmount (Some (hd menu)))
       \<and> (distinct menu \<and> bet = last menu \<longrightarrow>
            handleIncreaseBet (Some cfg) bet = SetBetAmount (Some (hd menu)))
       \<and> (bet = hd menu \<longrightarrow>
            handleDecreaseBet (Some cfg) bet = SetBetAmount (Some (last menu)))
       \<and> (bet \<notin> set menu \<longrightarrow>
            handleIncreaseBet (Some cfg) bet = SetBetAmount (Some (hd menu))
          \<and> handleDecreaseBet (Some cfg) bet = SetBetAmount (Some (hd menu)))"
proof -
  from ne obtain x xs where cons: "menu = x # xs" by (cases menu) auto
  have first: "js_nth menu 0 = Some (hd menu)"
    using cons by (simp add: js_nth_def)
  have lastpos: "js_nth menu (int (length menu) - 1) = Some (last menu)"
    using ne by (simp add: js_nth_def last_conv_nth nat_diff_distrib')
  have inc_last: "handleIncreaseBet (Some cfg) bet = SetBetAmount (Some (hd menu))"
    if pos: "indexOf menu bet = int (length menu) - 1"
  proof -
    have "int (length menu) - 1 \<noteq> -1" using cons by simp
    moreover have "(int (length menu) - 1 + 1) mod int (length menu) = 0" by simp
    ultimately show ?thesis
      using menu pos first by (simp add: handleIncreaseBet_def Let_def)
  qed
  have inc_distinct: "handleIncreaseBet (Some cfg) bet = SetBetAmount (Some (hd menu))"
    if "distinct menu" "bet = last menu"
    using that inc_last indexOf_distinct_last [of menu] ne by simp
  have dec_first: "handleDecreaseBet (Some cfg) bet = SetBetAmount (Some (last menu))"
    if "bet = hd menu"
    using that menu cons lastpos by (simp add: handleDecreaseBet_def Let_def)
  have missing: "handleIncreaseBet (Some cfg) bet = SetBetAmount (Some (hd menu))
      \<and> handleDecreaseBet (Some cfg) bet = SetBetAmount (Some (hd menu))"
    if "bet \<notin> set menu"
  proof -
    from that have "indexOf menu bet = -1" by (simp add: indexOf_missing)
    then show ?thesis
      using menu first by (simp add: handleIncreaseBet_def handleDecreaseBet_def Let_def)
  qed
  from inc_last inc_distinct dec_first missing show ?thesis by blast
qed

theorem C10_bet_wraps_witness:
  "handleIncreaseBet (Some (minimalDoc\<lparr>betAmounts := Some [1, 2, 3, 5, 10]\<rparr>)) 10
     = SetBetAmount (Some 1)
   \<and> handleDecreaseBet (Some (minimalDoc\<lparr>betAmounts := Some [1, 2, 3, 5, 10]\<rparr>)) 1
     = SetBetAmount (Some 10)
   \<and> handleIncreaseBet (Some (minimalDoc\<lparr>betAmounts := Some [1, 2, 3, 5, 10]\<rparr>)) 4
     = SetBetAmount (Some 1)
   \<and> handleDecreaseBet (Some (minimalDoc\<lparr>betAmounts := Some [1, 2, 3, 5, 10]\<rparr>)) 4
     = SetBetAmount (Some 1)"
proof -
  let ?cfg = "minimalDoc\<lparr>betAmounts := Some [1, 2, 3, 5, 10]\<rparr>"
  have m: "betAmounts ?cfg = Some [1, 2, 3, 5, 10]" by simp
  have n: "[1, 2, 3, 5, 10 :: real] \<noteq> []" by simp
  have a: "handleIncreaseBet (Some ?cfg) 10 = SetBetAmount (Some 1)"
    using C10_bet_wraps [OF m n, of 10] by simp
  have b: "handleDecreaseBet (Some ?cfg) 1 = SetBetAmount (Some 10)"
    using C10_bet_wraps [OF m n, of 1] by simp
  have c: "handleIncreaseBet (Some ?cfg) 4 = SetBetAmount (Some 1)
         \<and> handleDecreaseBet (Some ?cfg) 4 = SetBetAmount (Some 1)"
    using C10_bet_wraps [OF m n, of 4] by simp
  from a b c show ?thesis by simp
qed

section \<open>Claims about the spin guards\<close>







section \<open>Claims about autoplay and the accumulated bonus win\<close>

text \<open>The amounts of the autoplay scenario in double arithmetic: the loss limit
  \<open>0.05\<close> lies strictly between the loss 0 before the first round and the loss 2
  after it.\<close>

lemma loss_before_first_round: "js_minus 500 500 = 0"
  by code_simp

lemma loss_after_first_round: "js_minus 500 498 = 2"
  by code_simp

lemma dialog_loss_limit: "0 < nearestDouble (5 / 100) \<and> nearestDouble (5 / 100) < 2"
  by code_simp

text \<open>
  C5 does not hold of the code. Autoplay is started with the settings the dialog
  proposes (loss limit 0.05) on a balance of 500 with a bet of 2; the autoplay effect
  schedules a spin, its timer calls \<open>spin\<close>, and the round loses the bet. The round
  returns its result and the balance is 498, so the loss since autoplay started, 2,
  exceeds the limit, and the stop conditions evaluated on the state after the round hold.
  The handler that runs after the spin, however, evaluates them with the balance of the
  render that scheduled the spin, 500: they do not hold there, autoplay stays active with
  99 spins left, and the autoplay effect schedules the next spin. Only after that second
  round, which loses another bet, does the handler stop autoplay.
\<close>

theorem C5_loss_limit_checked_on_stale_balance:
  "stepAtStart = AutoplaySchedule
   \<and> autoplayTimerFired sampleEnv autoplayStarted = Some (spin sampleEnv autoplayStarted)
   \<and> snd lostRound = Return (Some lostResult)
   \<and> originalBalance (autoplayState (fst lostRound)) = 500
   \<and> balance (fst lostRound) = 498
   \<and> settings (autoplayState (fst lostRound)) = Some dialogSettings
   \<and> js_minus 500 498 > stopOnTotalLossExceeds dialogSettings
   \<and> checkAutoplayStopConditions (fst lostRound) lostResult
   \<and> balance autoplayStarted = 500
   \<and> \<not> checkAutoplayStopConditions autoplayStarted lostResult
   \<and> isActive (autoplayState afterLostRound)
   \<and> spinsRemaining (autoplayState afterLostRound) = 99
   \<and> stepAfterLostRound = AutoplaySchedule
   \<and> snd secondLostRound = Return (Some lostResult)
   \<and> balance (fst secondLostRound) = 496
   \<and> \<not> isActive (autoplayState afterSecondLostRound)"
  by code_simp

text \<open>
  C8 does not hold of the code. The state holds an accumulated bonus win of 20. A
  base-game round is played whose response carries no \<open>accumulatedActionGameWin\<close> (the
  field is optional). The round returns its result, and the accumulated bonus win is 0:
  the final state update passes \<open>response.player.accumulatedActionGameWin ?? 0\<close> to
  \<open>handleActionWheelStateChange\<close>.
\<close>

theorem C8_round_resets_accumulated_win:
  "accumulatedActionWin wheelWinState = 20
   \<and> accumulatedActionGameWin (player baseResponse) = None
   \<and> snd roundAfterWheel = Return (Some baseResult)
   \<and> accumulatedActionWin (fst roundAfterWheel) = 0"
  by code_simp

section \<open>Claims about a completed round\<close>

text \<open>
  A round that runs alone. A spin is issued in free-spin mode on an idle machine and
  answered by a response whose feature symbol is not empty and whose \<open>expandedSymbols\<close>
  name at least the threshold number of distinct reels (2 for Queen, Stone, Leopard and
  Wolf, 3 otherwise). Resuming the round often enough settles it. Whenever it has settled,
  under any schedule of its own resumptions and the timer callbacks, it returned the
  result, every expanded reel that lies in the grid (the grid has at least the configured
  number of reels) holds the feature symbol on every row, and the displayed winning lines
  are the response's \<open>featureGameWinningLines\<close> filtered to active paylines (none when
  the response has none).
\<close>

lemma lone_round_expansion_reveal:
  assumes mode: "isFreeSpinsMode s"
    and idle: "\<not> isAnimating s"
    and sess: "sessionId s \<noteq> []"
    and sym: "responseFeatureSymbol response \<noteq> []"
    and cover: "expansionThreshold (responseFeatureSymbol response)
                  \<le> card (reel ` set (expandedSymbols (results (player response))))"
  shows "(\<exists>x. snd (spinEvents env response elapsed
                   (replicate (Suc (rank env response AwaitTick)) Resume) s) = Return x)
    \<and> (snd (spinEvents env response elapsed es s) = Return x \<longrightarrow>
         x = Some (results (player response))
       \<and> envNumReels env \<le> length (grid (fst (spinEvents env response elapsed es s)))
       \<and> (\<forall>e \<in> set (expandedSymbols (results (player response))).
             0 \<le> reel e \<and> nat (reel e) < length (grid (fst (spinEvents env response elapsed es s)))
             \<longrightarrow> grid (fst (spinEvents env response elapsed es s)) ! nat (reel e)
                   = replicate (envNumRows env) (responseFeatureSymbol response))
       \<and> winningLines (fst (spinEvents env response elapsed es s))
           = (case resultFeatureGameWinningLines (results (player response)) of
                None \<Rightarrow> [] | Some ls \<Rightarrow> filter (activePayline env) ls))"
proof (rule conjI)
  have st: "snd (spin env s) = Await AwaitTick"
    using mode idle sess by (rule spin_started)
  have "\<exists>x. snd (runEvents env s response elapsed
                (replicate (Suc (rank env response AwaitTick)) Resume)
                (fst (spin env s), snd (spin env s))) = Return x"
    by (rule runEvents_settles) (simp add: st)
  then show "\<exists>x. snd (spinEvents env response elapsed
                   (replicate (Suc (rank env response AwaitTick)) Resume) s) = Return x"
    by (simp add: spinEvents_def)
next
  let ?fin = "fst (spinEvents env response elapsed es s)"
  let ?fl = "case resultFeatureGameWinningLines (results (player response)) of
                None \<Rightarrow> [] | Some ls \<Rightarrow> filter (activePayline env) ls"
  show "snd (spinEvents env response elapsed es s) = Return x \<longrightarrow>
         x = Some (results (player response))
       \<and> envNumReels env \<le> length (grid ?fin)
       \<and> (\<forall>e \<in> set (expandedSymbols (results (player response))).
             0 \<le> reel e \<and> nat (reel e) < length (grid ?fin)
             \<longrightarrow> grid ?fin ! nat (reel e)
                   = replicate (envNumRows env) (responseFeatureSymbol response))
       \<and> winningLines ?fin = ?fl"
  proof
    assume settled: "snd (spinEvents env response elapsed es s) = Return x"
    have ex: "willExpand response" using sym cover by (rule willExpand_cover)
    have reels: "set (reelsToExpandArray response)
        = reel ` set (expandedSymbols (results (player response)))"
      using sym cover by (rule willExpand_cover)
    have st: "snd (spin env s) = Await AwaitTick"
      using mode idle sess by (rule spin_started)
    have init: "expansionInv env s response (fst (spin env s)) (snd (spin env s))"
      by (simp add: st)
    have "expansionInv env s response
            (fst (runEvents env s response elapsed es (fst (spin env s), snd (spin env s))))
            (snd (runEvents env s response elapsed es (fst (spin env s), snd (spin env s))))"
      using init expansionInv_resume [OF mode ex] expansionInv_fireTimer
      by (rule runEvents_invariant)
    then have "expansionInv env s response ?fin (Return x)"
      using settled by (simp add: spinEvents_def)
    then have res: "x = Some (results (player response))"
      and len: "envNumReels env \<le> length (grid ?fin)"
      and fill: "filled env response (length (reelsToExpandArray response)) (grid ?fin)"
      and lines: "winningLines ?fin = featureGameLines env s response"
      by simp_all
    have fl: "featureGameLines env s response = ?fl"
      using mode sym by (simp add: featureGameLines_def)
    have cells: "\<forall>e \<in> set (expandedSymbols (results (player response))).
             0 \<le> reel e \<and> nat (reel e) < length (grid ?fin)
             \<longrightarrow> grid ?fin ! nat (reel e)
                   = replicate (envNumRows env) (responseFeatureSymbol response)"
    proof (intro ballI impI)
      fix e
      assume e: "e \<in> set (expandedSymbols (results (player response)))"
        and rng: "0 \<le> reel e \<and> nat (reel e) < length (grid ?fin)"
      from e reels have "reel e \<in> set (reelsToExpandArray response)" by auto
      then obtain k where k: "k < length (reelsToExpandArray response)"
        and at: "reelsToExpandArray response ! k = reel e"
        by (auto simp add: in_set_conv_nth)
      from fill k at rng show "grid ?fin ! nat (reel e)
          = replicate (envNumRows env) (responseFeatureSymbol response)"
        by (auto simp add: filled_def)
    qed
    from res len cells lines fl
    show "x = Some (results (player response))
       \<and> envNumReels env \<le> length (grid ?fin)
       \<and> (\<forall>e \<in> set (expandedSymbols (results (player response))).
             0 \<le> reel e \<and> nat (reel e) < length (grid ?fin)
             \<longrightarrow> grid ?fin ! nat (reel e)
                   = replicate (envNumRows env) (responseFeatureSymbol response))
       \<and> winningLines ?fin = ?fl"
      by simp
  qed
qed

text \<open>
  C3 does not hold of the code. In free-spin mode with the feature symbol Queen a first
  round waits in its settling pause, its reels stopped and nothing animating, when the
  player presses \<open>S\<close>. The second round starts; its response has \<open>expandedSymbols\<close> on
  the two reels 1 and 2 (the threshold of Queen) and the feature line \<open>narrowLine\<close> on
  payline 1. The first round is not stopped, since the second round lowers the shared
  cancellation flag again, and it shows its own feature line \<open>wideLine\<close> (payline 0)
  after the second round has shown \<open>narrowLine\<close>. When the second round returns its
  result, reels 1 and 2 hold Queen on every row, but the displayed winning lines are the
  first round's \<open>wideLine\<close>, and the border drawn on the cells of reel 1 is that of
  payline 0 instead of payline 1.
\<close>

theorem C3_overtaken_round_shows_older_feature_line:
  "map roundAt (snd firstSettling) = [Await AwaitSettle]
   \<and> isFreeSpinsMode (fst firstSettling)
   \<and> featureSymbol (fst firstSettling) = ''Queen''
   \<and> map roundClosure (snd overtaken) = [freeSpinState, fst firstSettling]
   \<and> map roundAt (snd overtaken) = [Await AwaitFeatureDwell, Return (Some narrowResult)]
   \<and> responseFeatureSymbol narrowResponse = ''Queen''
   \<and> expansionThreshold ''Queen'' = 2
   \<and> map reel (expandedSymbols (results (player narrowResponse))) = [1, 2]
   \<and> featureGameLines sampleEnv (fst firstSettling) narrowResponse = [narrowLine]
   \<and> grid (fst overtaken) ! 1 = [''Queen'', ''Queen'', ''Queen'']
   \<and> grid (fst overtaken) ! 2 = [''Queen'', ''Queen'', ''Queen'']
   \<and> winningLines (fst overtaken) = [wideLine]
   \<and> wideLine \<noteq> narrowLine
   \<and> getWinningLineIndices sampleEnv (fst overtaken) 1 0 = [0]
   \<and> paylineIndex narrowLine = 1"
  by code_simp

text \<open>
  C4: a resumption that completes a round (it returns the result of the response) has
  set balance, free spins remaining, feature symbol and last win to the values of
  \<open>response.player\<close>; so whenever a spin followed by any schedule of resumptions
  and timer callbacks has returned a result, these four hold the server's values.
\<close>

theorem C4_state_from_response:
  "(snd (resume env c response elapsed p s) = Return (Some res) \<longrightarrow>
      res = results (player response)
      \<and> balance (fst (resume env c response elapsed p s)) = playerBalance (player response)
      \<and> freeSpinsRemaining (fst (resume env c response elapsed p s))
          = playerFreeSpinsRemaining (player response)
      \<and> featureSymbol (fst (resume env c response elapsed p s))
          = playerFeatureSymbol (player response)
      \<and> lastWin (fst (resume env c response elapsed p s)) = playerLastWin (player response))
   \<and> (snd (spinEvents env response elapsed es s0) = Return (Some res) \<longrightarrow>
      res = results (player response)
      \<and> balance (fst (spinEvents env response elapsed es s0)) = playerBalance (player response)
      \<and> freeSpinsRemaining (fst (spinEvents env response elapsed es s0))
          = playerFreeSpinsRemaining (player response)
      \<and> featureSymbol (fst (spinEvents env response elapsed es s0))
          = playerFeatureSymbol (player response)
      \<and> lastWin (fst (spinEvents env response elapsed es s0)) = playerLastWin (player response))"
proof (rule conjI; rule impI)
  assume "snd (resume env c response elapsed p s) = Return (Some res)"
  from resume_completed [OF this]
  show "res = results (player response)
      \<and> balance (fst (resume env c response elapsed p s)) = playerBalance (player response)
      \<and> freeSpinsRemaining (fst (resume env c response elapsed p s))
          = playerFreeSpinsRemaining (player response)
      \<and> featureSymbol (fst (resume env c response elapsed p s))
          = playerFeatureSymbol (player response)
      \<and> lastWin (fst (resume env c response elapsed p s)) = playerLastWin (player response)" .
next
  assume settled: "snd (spinEvents env response elapsed es s0) = Return (Some res)"
  define I where "I = (\<lambda>(s::SlotState) out. \<forall>x. out = Return (Some x) \<longrightarrow>
      x = results (player response)
      \<and> balance s = playerBalance (player response)
      \<and> freeSpinsRemaining s = playerFreeSpinsRemaining (player response)
      \<and> featureSymbol s = playerFeatureSymbol (player response)
      \<and> lastWin s = playerLastWin (player response))"
  have init: "I (fst (spin env s0)) (snd (spin env s0))"
    using spin_outcome_cases [of env s0] by (auto simp add: I_def)
  have step: "\<And>s p. I s (Await p) \<Longrightarrow>
       I (fst (resume env s0 response elapsed p s)) (snd (resume env s0 response elapsed p s))"
    using resume_completed by (simp add: I_def)
  have timer: "\<And>s out t. I s out \<Longrightarrow> I (fireTimer env t s) out"
    by (simp add: I_def fireTimer_frame)
  have "I (fst (runEvents env s0 response elapsed es (fst (spin env s0), snd (spin env s0))))
          (snd (runEvents env s0 response elapsed es (fst (spin env s0), snd (spin env s0))))"
    using init step timer by (rule runEvents_invariant)
  then have "I (fst (spinEvents env response elapsed es s0)) (snd (spinEvents env response elapsed es s0))"
    by (simp add: spinEvents_def)
  with settled show "res = results (player response)
      \<and> balance (fst (spinEvents env response elapsed es s0)) = playerBalance (player response)
      \<and> freeSpinsRemaining (fst (spinEvents env response elapsed es s0))
          = playerFreeSpinsRemaining (player response)
      \<and> featureSymbol (fst (spinEvents env response elapsed es s0))
          = playerFeatureSymbol (player response)
      \<and> lastWin (fst (spinEvents env response elapsed es s0)) = playerLastWin (player response)"
    by (simp add: I_def)
qed

text \<open>The sample base-game round ends with the balance 503 and the win 5 of its
  response.\<close>

theorem C4_state_from_response_witness:
  "snd (spinEvents sampleEnv baseResponse 700 (replicate 20 Resume) idleState) = Return (Some baseResult)
   \<and> balance (fst (spinEvents sampleEnv baseResponse 700 (replicate 20 Resume) idleState)) = 503
   \<and> freeSpinsRemaining (fst (spinEvents sampleEnv baseResponse 700 (replicate 20 Resume) idleState)) = 0
   \<and> featureSymbol (fst (spinEvents sampleEnv baseResponse 700 (replicate 20 Resume) idleState)) = []
   \<and> lastWin (fst (spinEvents sampleEnv baseResponse 700 (replicate 20 Resume) idleState)) = 5"
proof -
  have fin: "snd (spinEvents sampleEnv baseResponse 700 (replicate 20 Resume) idleState)
      = Return (Some baseResult)"
    by code_simp
  have vals: "playerBalance (player baseResponse) = 503"
    "playerFreeSpinsRemaining (player baseResponse) = 0"
    "playerFeatureSymbol (player baseResponse) = []"
    "playerLastWin (player baseResponse) = 5"
    by (simp_all add: baseResponse_def)
  from C4_state_from_response [of sampleEnv idleState baseResponse 700 AwaitTick idleState
      baseResult "replicate 20 Resume" idleState] fin vals
  show ?thesis by simp
qed

section \<open>Claims about cancellation and request failure\<close>

text \<open>
  C2 does not hold of the code. The flag is one shared reference, and the round that
  raises it lowers it again after its zero-delay timer, so a superseded round that
  waits on a longer timer finds the flag down when it resumes: here the first round,
  superseded during its settling pause, still shows its winning line, its win feedback
  and its last win while the reels of the second round spin. Besides, three suspension
  points do not check the flag first: after the response the reel-expand list is
  written before the check, after the grid-update pause the bounce flag is set without
  any check, and after the show-grid pause the round goes on to its next pause.
\<close>

theorem C2_superseded_round_shows_stale_result:
  "snd roundAtSettle = Await AwaitSettle
   \<and> keySpin sampleEnv (fst roundAtSettle) = ReelSpin newSpinIssued
   \<and> snd newSpinIssued = Await AwaitTick
   \<and> spinCancelledRef (fst newSpinIssued)
   \<and> winningLines (fst newSpinIssued) = []
   \<and> snd newSpinRequested = Await AwaitNetwork
   \<and> \<not> spinCancelledRef (fst newSpinRequested)
   \<and> length (requests (fst newSpinRequested)) = 2
   \<and> snd staleReveal = Return (Some baseResult)
   \<and> winningLines (fst staleReveal) = [coinLine]
   \<and> winningFeedback (fst staleReveal) = Some (getWinningFeedback 5)
   \<and> lastWin (fst staleReveal) = 5
   \<and> isSpinning (fst staleReveal)
   \<and> spinCancelledRef cancelledState
   \<and> reelsToExpand cancelledState = []
   \<and> reelsToExpand (fst (resume sampleEnv freeSpinState featureResponse 700 AwaitNetwork
         cancelledState)) = [1, 2]
   \<and> bouncingReels (fst (resume sampleEnv freeSpinState featureResponse 700 (AwaitGridUpdate 4)
         cancelledState)) = [False, False, False, False, True]
   \<and> snd (resume sampleEnv freeSpinState featureResponse 700 AwaitShowGrid cancelledState)
       = Await AwaitPreExpand"
  by code_simp

text \<open>
  C6 does not hold of the code. When the request is rejected before the staggered reel
  start has finished, the failure path clears the spinning flags and shows the
  notification, but the start loop is still waiting in the timer queue and the flag is
  down: its callbacks set reels 1 to 4 spinning again. No round is in flight any more,
  nothing is left that would stop the reels, and every further spin is refused.
\<close>

theorem C6_early_rejection_leaves_reels_spinning:
  "snd rejectedAtOnce = Return None
   \<and> spinningReels (fst rejectedAtOnce) = [False, False, False, False, False]
   \<and> toasts (fst rejectedAtOnce) = [ConnectionError ''Failed to fetch'']
   \<and> timers (fst rejectedAtOnce) = [StartReelDelay 0]
   \<and> \<not> spinCancelledRef (fst rejectedAtOnce)
   \<and> spinningReels earlyRejection = [False, True, True, True, True]
   \<and> isSpinning earlyRejection
   \<and> timers earlyRejection = []
   \<and> length (requests earlyRejection) = 1
   \<and> snd (spin sampleEnv earlyRejection) = Return None
   \<and> keySpin sampleEnv earlyRejection = NoSpin earlyRejection"
  by code_simp

end
